theory Spec2Isabelle
  imports Complex_Main
begin

section \<open>Errors\<close>

text \<open>
  The exceptions that \<^verbatim>\<open>transformer.py\<close> and the tensor library under it can raise.
  The source raises \<^verbatim>\<open>AssertionError\<close> where the specification speaks of a
  ConfigurationError, and the tensor library raises \<^verbatim>\<open>RuntimeError\<close> where the
  specification speaks of a ShapeError.
\<close>

datatype error =
    ZeroDivisionError
  | AssertionError
  | RuntimeError
  | IndexError
  | ValueError

section \<open>SelfAttention.__init__\<close>

text \<open>
  The attributes that \<^verbatim>\<open>SelfAttention.__init__\<close> stores. The four
  \<^verbatim>\<open>nn.Linear\<close> layers hold the learned parameters; they are kept apart in
  \<open>SelfAttention_params\<close> below.
\<close>

record SelfAttention =
  embed_size :: int
  heads :: int
  head_dim :: int

text \<open>
  \<^verbatim>\<open>nn.Linear(in_features, out_features)\<close> allocates a weight of shape
  \<^verbatim>\<open>[out_features, in_features]\<close>; the tensor library refuses a negative dimension.
\<close>

definition nn_Linear_init :: "int \<Rightarrow> int \<Rightarrow> error + unit" where
  "nn_Linear_init in_features out_features =
     (if in_features < 0 \<or> out_features < 0 then Inl RuntimeError else Inr ())"

text \<open>
  Python's \<^verbatim>\<open>//\<close> is floor division, as \<open>div\<close> on \<open>int\<close> is; it raises on a zero
  divisor, where HOL returns 0, so that case is written out.
\<close>

definition SelfAttention_init :: "int \<Rightarrow> int \<Rightarrow> error + SelfAttention" where
  "SelfAttention_init embed_size' heads' =
     (if heads' = 0 then Inl ZeroDivisionError
      else let head_dim' = embed_size' div heads' in
        if \<not> (head_dim' * heads' = embed_size') then Inl AssertionError
        else (case nn_Linear_init head_dim' head_dim' of
                Inl e \<Rightarrow> Inl e
              | Inr _ \<Rightarrow>
                (case nn_Linear_init (heads' * head_dim') embed_size' of
                   Inl e \<Rightarrow> Inl e
                 | Inr _ \<Rightarrow>
                   Inr \<lparr>embed_size = embed_size', heads = heads', head_dim = head_dim'\<rparr>)))"

text \<open>Sequencing of calls that may raise: the first error is the result.\<close>

definition ebind :: "error + 'a \<Rightarrow> ('a \<Rightarrow> error + 'b) \<Rightarrow> error + 'b" where
  "ebind m f = (case m of Inl e \<Rightarrow> Inl e | Inr x \<Rightarrow> f x)"

section \<open>The modules and their constructors\<close>

text \<open>
  A library layer is kept as the sizes it was built with: \<^verbatim>\<open>nn.Linear\<close> as
  \<open>(in_features, out_features)\<close>, \<^verbatim>\<open>nn.Embedding\<close> as
  \<open>(num_embeddings, embedding_dim)\<close>, \<^verbatim>\<open>nn.LayerNorm\<close> as its normalized size and
  \<^verbatim>\<open>nn.Dropout\<close> as its rate. The library refuses a negative size and a rate outside
  \<open>[0, 1]\<close>.
\<close>

definition nn_Embedding_init :: "int \<Rightarrow> int \<Rightarrow> error + int \<times> int" where
  "nn_Embedding_init num_embeddings embedding_dim =
     (if num_embeddings < 0 \<or> embedding_dim < 0 then Inl RuntimeError
      else Inr (num_embeddings, embedding_dim))"

definition nn_LayerNorm_init :: "int \<Rightarrow> error + int" where
  "nn_LayerNorm_init normalized_shape =
     (if normalized_shape < 0 then Inl RuntimeError else Inr normalized_shape)"

definition nn_Dropout_init :: "real \<Rightarrow> error + real" where
  "nn_Dropout_init p = (if p < 0 \<or> 1 < p then Inl ValueError else Inr p)"

record TransformerBlock =
  attention :: SelfAttention
  norm1 :: int
  norm2 :: int
  feed_forward :: "(int \<times> int) \<times> (int \<times> int)"
  dropout :: real

definition TransformerBlock_init ::
  "int \<Rightarrow> int \<Rightarrow> real \<Rightarrow> int \<Rightarrow> error + TransformerBlock" where
  "TransformerBlock_init embed_size' heads' dropout' forward_expansion =
     ebind (SelfAttention_init embed_size' heads') (\<lambda>att.
     ebind (nn_LayerNorm_init embed_size') (\<lambda>n1.
     ebind (nn_LayerNorm_init embed_size') (\<lambda>n2.
     ebind (nn_Linear_init embed_size' (forward_expansion * embed_size')) (\<lambda>_.
     ebind (nn_Linear_init (forward_expansion * embed_size') embed_size') (\<lambda>_.
     ebind (nn_Dropout_init dropout') (\<lambda>d.
     Inr \<lparr>attention = att, norm1 = n1, norm2 = n2,
          feed_forward = ((embed_size', forward_expansion * embed_size'),
                          (forward_expansion * embed_size', embed_size')),
          dropout = d\<rparr>))))))"

text \<open>
  \<^verbatim>\<open>[Block(...) for _ in range(num_layers)]\<close>: the constructor runs once per layer with
  the same arguments, and not at all when \<^verbatim>\<open>num_layers\<close> is not positive.
\<close>

definition init_layers :: "int \<Rightarrow> error + 'a \<Rightarrow> error + 'a list" where
  "init_layers num_layers layer =
     (if num_layers \<le> 0 then Inr []
      else ebind layer (\<lambda>b. Inr (replicate (nat num_layers) b)))"

record Encoder =
  enc_word_embedding :: "int \<times> int"
  enc_position_embedding :: "int \<times> int"
  enc_layers :: "TransformerBlock list"
  enc_dropout :: real

definition Encoder_init ::
  "int \<Rightarrow> int \<Rightarrow> int \<Rightarrow> int \<Rightarrow> string \<Rightarrow> int \<Rightarrow> real \<Rightarrow> int \<Rightarrow> error + Encoder" where
  "Encoder_init src_vocab_size embed_size' num_layers heads' device' forward_expansion
       dropout' max_length =
     ebind (nn_Embedding_init src_vocab_size embed_size') (\<lambda>we.
     ebind (nn_Embedding_init max_length embed_size') (\<lambda>pe.
     ebind (init_layers num_layers
              (TransformerBlock_init embed_size' heads' dropout' forward_expansion)) (\<lambda>ls.
     ebind (nn_Dropout_init dropout') (\<lambda>d.
     Inr \<lparr>enc_word_embedding = we, enc_position_embedding = pe, enc_layers = ls,
          enc_dropout = d\<rparr>))))"

record DecoderBLock =
  db_attention :: SelfAttention
  db_norm :: int
  transformer_block :: TransformerBlock
  db_dropout :: real

definition DecoderBLock_init ::
  "int \<Rightarrow> int \<Rightarrow> int \<Rightarrow> real \<Rightarrow> string \<Rightarrow> error + DecoderBLock" where
  "DecoderBLock_init embed_size' heads' forward_expansion dropout' device' =
     ebind (SelfAttention_init embed_size' heads') (\<lambda>att.
     ebind (nn_LayerNorm_init embed_size') (\<lambda>n.
     ebind (TransformerBlock_init embed_size' heads' dropout' forward_expansion) (\<lambda>tb.
     ebind (nn_Dropout_init dropout') (\<lambda>d.
     Inr \<lparr>db_attention = att, db_norm = n, transformer_block = tb, db_dropout = d\<rparr>))))"

record Decoder =
  dec_word_embedding :: "int \<times> int"
  dec_position_embedding :: "int \<times> int"
  dec_layers :: "DecoderBLock list"
  dec_fc_out :: "int \<times> int"
  dec_dropout :: real

definition Decoder_init ::
  "int \<Rightarrow> int \<Rightarrow> int \<Rightarrow> int \<Rightarrow> int \<Rightarrow> real \<Rightarrow> string \<Rightarrow> int \<Rightarrow> error + Decoder" where
  "Decoder_init trg_vocab_size embed_size' num_layers heads' forward_expansion dropout'
       device' max_length =
     ebind (nn_Embedding_init trg_vocab_size embed_size') (\<lambda>we.
     ebind (nn_Embedding_init max_length embed_size') (\<lambda>pe.
     ebind (init_layers num_layers
              (DecoderBLock_init embed_size' heads' forward_expansion dropout' device')) (\<lambda>ls.
     ebind (nn_Linear_init embed_size' trg_vocab_size) (\<lambda>_.
     ebind (nn_Dropout_init dropout') (\<lambda>d.
     Inr \<lparr>dec_word_embedding = we, dec_position_embedding = pe, dec_layers = ls,
          dec_fc_out = (embed_size', trg_vocab_size), dec_dropout = d\<rparr>)))))"

record Transformer =
  encoder :: Encoder
  decoder :: Decoder
  src_pad_idx :: int
  trg_pad_idx :: int
  device :: string

definition Transformer_init ::
  "int \<Rightarrow> int \<Rightarrow> int \<Rightarrow> int \<Rightarrow> int \<Rightarrow> int \<Rightarrow> int \<Rightarrow> int \<Rightarrow> real \<Rightarrow> string \<Rightarrow> int
     \<Rightarrow> error + Transformer" where
  "Transformer_init src_vocab_size trg_vocab_size src_pad_idx' trg_pad_idx' embed_size'
       num_layers forward_expansion heads' dropout' device' max_length =
     ebind (Encoder_init src_vocab_size embed_size' num_layers heads' device'
              forward_expansion dropout' max_length) (\<lambda>enc.
     ebind (Decoder_init trg_vocab_size embed_size' num_layers heads' forward_expansion
              dropout' device' max_length) (\<lambda>dec.
     Inr \<lparr>encoder = enc, decoder = dec, src_pad_idx = src_pad_idx',
          trg_pad_idx = trg_pad_idx', device = device'\<rparr>))"

text \<open>
  The model that \<^verbatim>\<open>__main__\<close> builds: vocabularies of 10, padding index 0, and the
  defaults embed size 256, 6 layers, expansion 4, 8 heads, dropout 0, maximal length 100.
\<close>

definition main_block :: TransformerBlock where
  "main_block =
     \<lparr>attention = \<lparr>embed_size = 256, heads = 8, head_dim = 32\<rparr>,
      norm1 = 256, norm2 = 256, feed_forward = ((256, 1024), (1024, 256)), dropout = 0\<rparr>"

definition main_model :: Transformer where
  "main_model =
     \<lparr>encoder =
        \<lparr>enc_word_embedding = (10, 256), enc_position_embedding = (100, 256),
         enc_layers = replicate 6 main_block, enc_dropout = 0\<rparr>,
      decoder =
        \<lparr>dec_word_embedding = (10, 256), dec_position_embedding = (100, 256),
         dec_layers = replicate 6
           \<lparr>db_attention = \<lparr>embed_size = 256, heads = 8, head_dim = 32\<rparr>, db_norm = 256,
            transformer_block = main_block, db_dropout = 0\<rparr>,
         dec_fc_out = (256, 10), dec_dropout = 0\<rparr>,
      src_pad_idx = 0, trg_pad_idx = 0, device = ''mps''\<rparr>"

section \<open>Tensors\<close>

text \<open>
  A tensor is a nested list, outermost axis first. The first reading of the forward pass
  computes in exact real arithmetic; the reading in the range of float32, further down,
  adds the overflow to infinity, NaN and the underflow to 0 of the library's floats.
  \<open>dim1\<close> is \<^verbatim>\<open>shape[1]\<close> of a tensor with a non-empty batch.
\<close>

type_synonym tensor3 = "real list list list"
type_synonym tensor4 = "real list list list list"

definition dim1 :: "'a list list \<Rightarrow> nat" where
  "dim1 t = (case t of [] \<Rightarrow> 0 | r # _ \<Rightarrow> length r)"

definition imap :: "(nat \<Rightarrow> 'a \<Rightarrow> 'b) \<Rightarrow> 'a list \<Rightarrow> 'b list" where
  "imap f xs = map (\<lambda>i. f i (xs ! i)) [0..<length xs]"

text \<open>Indexing under broadcasting: an axis of size 1 is repeated along the other operand.\<close>

definition bnth :: "'a list \<Rightarrow> nat \<Rightarrow> 'a" where
  "bnth xs i = (if length xs = 1 then xs ! 0 else xs ! i)"

definition mask_at :: "tensor4 \<Rightarrow> nat \<Rightarrow> nat \<Rightarrow> nat \<Rightarrow> nat \<Rightarrow> real" where
  "mask_at m n h q k = bnth (bnth (bnth (bnth m n) h) q) k"

subsection \<open>The library operations that forward uses\<close>

definition dot :: "real list \<Rightarrow> real list \<Rightarrow> real" where
  "dot a b = sum_list (map2 (*) a b)"

text \<open>\<^verbatim>\<open>nn.Linear(.., bias=False)\<close> on one vector: \<open>y\<^sub>j = \<Sum>\<^sub>i x\<^sub>i W\<^sub>j\<^sub>i\<close>.\<close>

definition Linear_nobias :: "real list list \<Rightarrow> real list \<Rightarrow> real list" where
  "Linear_nobias W x = map (\<lambda>w. dot w x) W"

text \<open>
  \<^verbatim>\<open>t.reshape(N, L, H, D)\<close> of a three-axis tensor: the entries in row-major order,
  regrouped.
\<close>

definition reshape4 ::
  "nat \<Rightarrow> nat \<Rightarrow> nat \<Rightarrow> nat \<Rightarrow> 'a list list list \<Rightarrow> 'a list list list list" where
  "reshape4 N L H D t =
     (let flat = concat (map concat t) in
      map (\<lambda>n. map (\<lambda>l. map (\<lambda>h. take D (drop (((n * L + l) * H + h) * D) flat))
        [0..<H]) [0..<L]) [0..<N])"

text \<open>\<^verbatim>\<open>torch.einsum("nqhd, nkhd -> nhqk", [queries, keys])\<close>.\<close>

definition einsum_nqhd_nkhd ::
  "nat \<Rightarrow> nat \<Rightarrow> nat \<Rightarrow> nat \<Rightarrow> tensor4 \<Rightarrow> tensor4 \<Rightarrow> tensor4" where
  "einsum_nqhd_nkhd N H Q K queries keys =
     map (\<lambda>n. map (\<lambda>h. map (\<lambda>q. map (\<lambda>k. dot (queries ! n ! q ! h) (keys ! n ! k ! h))
       [0..<K]) [0..<Q]) [0..<H]) [0..<N]"

text \<open>\<^verbatim>\<open>energy.masked_fill(mask == 0, v)\<close>, the mask broadcast to the shape of energy.\<close>

definition masked_fill ::
  "'a list list list list \<Rightarrow> tensor4 \<Rightarrow> 'a \<Rightarrow> 'a list list list list" where
  "masked_fill energy mask' v =
     imap (\<lambda>n. imap (\<lambda>h. imap (\<lambda>q. imap (\<lambda>k e.
       if mask_at mask' n h q k = 0 then v else e)))) energy"

text \<open>
  \<^verbatim>\<open>torch.softmax(t, dim=3)\<close>: along the last of four axes, in exact arithmetic. Its
  float32 counterpart is \<open>softmax_f32\<close>, and \<open>softmax_f32_agrees\<close> gives the rows on which
  the two return the same numbers.
\<close>

definition softmax :: "real list \<Rightarrow> real list" where
  "softmax xs = map (\<lambda>x. exp x / sum_list (map exp xs)) xs"

definition softmax_dim3 :: "tensor4 \<Rightarrow> tensor4" where
  "softmax_dim3 t = map (map (map softmax)) t"

section \<open>SelfAttention.forward\<close>

text \<open>The weights of the three bias-free projections, each \<^verbatim>\<open>[head_dim, head_dim]\<close>.\<close>

record SelfAttention_params =
  values_weight :: "real list list"
  keys_weight :: "real list list"
  queries_weight :: "real list list"

text \<open>Lines 19 to 31: the energy, of shape \<^verbatim>\<open>[N, heads, query_len, key_len]\<close>.\<close>

definition SelfAttention_energy ::
  "SelfAttention \<Rightarrow> SelfAttention_params \<Rightarrow> tensor3 \<Rightarrow> tensor3 \<Rightarrow> tensor4" where
  "SelfAttention_energy self p keys queries =
     (let N = length queries;
          key_len = dim1 keys;
          query_len = dim1 queries;
          H = nat (heads self);
          D = nat (head_dim self);
          keys1 = reshape4 N key_len H D keys;
          queries1 = reshape4 N query_len H D queries;
          keys2 = map (map (map (Linear_nobias (keys_weight p)))) keys1;
          queries2 = map (map (map (Linear_nobias (queries_weight p)))) queries1
      in einsum_nqhd_nkhd N H query_len key_len queries2 keys2)"

text \<open>The sentinel \<^verbatim>\<open>float("-1e20")\<close>.\<close>

definition neg_sentinel :: real where
  "neg_sentinel = - (10 ^ 20)"

text \<open>
  Lines 36 to 39: the optional mask fill, the division by \<^verbatim>\<open>embed_size ** (1/2)\<close> and the
  softmax over the last axis.
\<close>

definition attention_of_energy :: "int \<Rightarrow> tensor4 \<Rightarrow> tensor4 option \<Rightarrow> tensor4" where
  "attention_of_energy embed_size' energy mask' =
     (let energy1 = (case mask' of None \<Rightarrow> energy
                     | Some m \<Rightarrow> masked_fill energy m neg_sentinel)
      in softmax_dim3
           (map (map (map (map (\<lambda>e. e / sqrt (real_of_int embed_size'))))) energy1))"

text \<open>
  The local \<^verbatim>\<open>attention\<close> of \<^verbatim>\<open>forward(values, keys, queries, mask)\<close>, on tensors of
  shapes \<^verbatim>\<open>[N, value_len, E]\<close>, \<^verbatim>\<open>[N, key_len, E]\<close>, \<^verbatim>\<open>[N, query_len, E]\<close>.
\<close>

definition SelfAttention_attention ::
  "SelfAttention \<Rightarrow> SelfAttention_params \<Rightarrow> tensor3 \<Rightarrow> tensor3 \<Rightarrow> tensor3 \<Rightarrow>
     tensor4 option \<Rightarrow> tensor4" where
  "SelfAttention_attention self p values keys queries mask' =
     attention_of_energy (embed_size self) (SelfAttention_energy self p keys queries) mask'"

text \<open>
  Python's warnings are an effect on a log. \<^verbatim>\<open>forward\<close> issues none, so the log
  comes back as it went in.
\<close>

datatype warning = DegenerateMaskWarning

definition SelfAttention_attention_logged ::
  "SelfAttention \<Rightarrow> SelfAttention_params \<Rightarrow> tensor3 \<Rightarrow> tensor3 \<Rightarrow> tensor3 \<Rightarrow>
     tensor4 option \<Rightarrow> warning list \<Rightarrow> tensor4 \<times> warning list" where
  "SelfAttention_attention_logged self p values keys queries mask' issued =
     (SelfAttention_attention self p values keys queries mask', issued)"

section \<open>The mask builder\<close>

definition ones :: "nat \<Rightarrow> nat \<Rightarrow> real list list" where
  "ones r c = replicate r (replicate c 1)"

text \<open>\<^verbatim>\<open>torch.tril\<close>: the entries above the diagonal become 0.\<close>

definition tril :: "real list list \<Rightarrow> real list list" where
  "tril m = imap (\<lambda>i. imap (\<lambda>j x. if j \<le> i then x else 0)) m"

text \<open>
  \<^verbatim>\<open>(src != self.src_pad_idx).unsqueeze(1).unsqueeze(2)\<close>, of shape
  \<^verbatim>\<open>[N, 1, 1, src_len]\<close>. The entries are booleans, which \<^verbatim>\<open>mask == 0\<close> reads as 1
  and 0.
\<close>

definition make_src_mask :: "Transformer \<Rightarrow> int list list \<Rightarrow> tensor4" where
  "make_src_mask self src =
     map (\<lambda>row. [[map (\<lambda>t. if t \<noteq> src_pad_idx self then 1 else 0) row]]) src"

text \<open>
  \<^verbatim>\<open>torch.tril(torch.ones((trg_len, trg_len))).expand(N, 1, trg_len, trg_len)\<close>.
\<close>

definition make_trg_mask :: "Transformer \<Rightarrow> int list list \<Rightarrow> tensor4" where
  "make_trg_mask self trg =
     (let N = length trg;
          trg_len = dim1 trg
      in replicate N [tril (ones trg_len trg_len)])"

section \<open>The two attention calls of the decoder\<close>

text \<open>
  \<^verbatim>\<open>DecoderBLock.forward\<close> calls \<^verbatim>\<open>self.attention(x, x, x, trg_mask)\<close>, and its
  transformer block calls \<^verbatim>\<open>self.attention(values, keys, queries, src_mask)\<close> with the
  encoder output as values and keys.
\<close>

definition DecoderBLock_self_attention ::
  "SelfAttention \<Rightarrow> SelfAttention_params \<Rightarrow> tensor3 \<Rightarrow> tensor4 \<Rightarrow> tensor4" where
  "DecoderBLock_self_attention self p x trg_mask =
     SelfAttention_attention self p x x x (Some trg_mask)"

definition DecoderBLock_cross_attention ::
  "SelfAttention \<Rightarrow> SelfAttention_params \<Rightarrow> tensor3 \<Rightarrow> tensor3 \<Rightarrow> tensor4 \<Rightarrow> tensor4" where
  "DecoderBLock_cross_attention self p enc_out queries src_mask =
     SelfAttention_attention self p enc_out enc_out queries (Some src_mask)"

section \<open>The attention weights in the range of float32\<close>

text \<open>
  The second reading of lines 19 to 39 keeps what exact real arithmetic leaves out of a
  float32 computation: a result whose magnitude reaches \<open>2\<^sup>1\<^sup>2\<^sup>8 - 2\<^sup>1\<^sup>0\<^sup>3\<close> becomes
  an infinity, a result of magnitude at most \<open>2\<^sup>-\<^sup>1\<^sup>5\<^sup>0\<close> becomes 0, and the infinities
  and NaN propagate as IEEE 754 has it. The rounding of the significand to 24 bits is
  left out: a result inside the range is kept as it is. The inputs and the parameters
  are finite numbers. In a dot product the products are accumulated from the left, and
  the softmax subtracts the maximum of the row before it exponentiates, as the library's
  does.
\<close>

datatype f32 = Finite real | PosInf | NegInf | NaN

definition f32_overflow :: real where
  "f32_overflow = 2 ^ 128 - 2 ^ 103"

definition f32_underflow :: real where
  "f32_underflow = 1 / 2 ^ 150"

definition round_f32 :: "real \<Rightarrow> f32" where
  "round_f32 r =
     (if f32_overflow \<le> r then PosInf
      else if r \<le> - f32_overflow then NegInf
      else if \<bar>r\<bar> \<le> f32_underflow then Finite 0
      else Finite r)"

fun f32_neg :: "f32 \<Rightarrow> f32" where
  "f32_neg (Finite a) = Finite (- a)"
| "f32_neg PosInf = NegInf"
| "f32_neg NegInf = PosInf"
| "f32_neg NaN = NaN"

fun f32_add :: "f32 \<Rightarrow> f32 \<Rightarrow> f32" where
  "f32_add (Finite a) (Finite b) = round_f32 (a + b)"
| "f32_add NaN b = NaN"
| "f32_add a NaN = NaN"
| "f32_add PosInf NegInf = NaN"
| "f32_add NegInf PosInf = NaN"
| "f32_add PosInf b = PosInf"
| "f32_add a PosInf = PosInf"
| "f32_add NegInf b = NegInf"
| "f32_add a NegInf = NegInf"

definition f32_sub :: "f32 \<Rightarrow> f32 \<Rightarrow> f32" where
  "f32_sub a b = f32_add a (f32_neg b)"

text \<open>The sign of an infinite product or quotient: the first argument is \<open>PosInf\<close> or \<open>NegInf\<close>.\<close>

fun f32_signed :: "f32 \<Rightarrow> real \<Rightarrow> f32" where
  "f32_signed i s = (if s = 0 then NaN else if 0 < s then i else f32_neg i)"


fun f32_div :: "f32 \<Rightarrow> f32 \<Rightarrow> f32" where
  "f32_div (Finite a) (Finite b) = (if b = 0 then f32_signed PosInf a else round_f32 (a / b))"
| "f32_div NaN b = NaN"
| "f32_div a NaN = NaN"
| "f32_div (Finite a) b = Finite 0"
| "f32_div a (Finite b) = (if b = 0 then a else f32_signed a b)"
| "f32_div a b = NaN"

fun f32_exp :: "f32 \<Rightarrow> f32" where
  "f32_exp (Finite a) = round_f32 (exp a)"
| "f32_exp PosInf = PosInf"
| "f32_exp NegInf = Finite 0"
| "f32_exp NaN = NaN"

fun f32_max :: "f32 \<Rightarrow> f32 \<Rightarrow> f32" where
  "f32_max (Finite a) (Finite b) = Finite (max a b)"
| "f32_max NaN b = NaN"
| "f32_max a NaN = NaN"
| "f32_max PosInf b = PosInf"
| "f32_max a PosInf = PosInf"
| "f32_max NegInf b = b"
| "f32_max a NegInf = a"




definition softmax_f32 :: "f32 list \<Rightarrow> f32 list" where
  "softmax_f32 xs =
     (let m = foldr f32_max xs NegInf;
          es = map (\<lambda>x. f32_exp (f32_sub x m)) xs;
          s = foldr f32_add es (Finite 0)
      in map (\<lambda>e. f32_div e s) es)"








section \<open>The forward pass on shapes\<close>

text \<open>
  The second reading of the forward pass keeps of each tensor its shape only, and with it
  every place where the tensor library raises: a reshape to a different number of
  entries, a linear layer or a layer normalization on a last axis of the wrong size, an
  einsum or an elementwise operation on sizes that neither agree nor are 1, an embedding
  index outside its table. Dropout, ReLU, the division by a scalar and \<^verbatim>\<open>.to(device)\<close>
  keep the shape and have no step of their own. The value-level definitions above
  describe the calls on which this reading returns a shape; the head count is positive
  there, as the reshape reads a negative size as a size to infer.
\<close>

type_synonym shape = "nat list"

definition shape_index :: "shape \<Rightarrow> nat \<Rightarrow> error + nat" where
  "shape_index s i = (if i < length s then Inr (s ! i) else Inl IndexError)"

definition reshape_shape :: "shape \<Rightarrow> shape \<Rightarrow> error + shape" where
  "reshape_shape s new = (if prod_list s = prod_list new then Inr new else Inl RuntimeError)"

definition broadcast_dim :: "nat \<Rightarrow> nat \<Rightarrow> error + nat" where
  "broadcast_dim a b =
     (if a = b then Inr a else if a = 1 then Inr b else if b = 1 then Inr a
      else Inl RuntimeError)"

text \<open>Broadcasting aligns the shapes at their last axis; the lists here are reversed.\<close>

fun broadcast_rev :: "shape \<Rightarrow> shape \<Rightarrow> error + shape" where
  "broadcast_rev [] bs = Inr bs"
| "broadcast_rev (a # as) [] = Inr (a # as)"
| "broadcast_rev (a # as) (b # bs) =
     ebind (broadcast_dim a b) (\<lambda>d. ebind (broadcast_rev as bs) (\<lambda>r. Inr (d # r)))"

definition broadcast_shapes :: "shape \<Rightarrow> shape \<Rightarrow> error + shape" where
  "broadcast_shapes a b = ebind (broadcast_rev (rev a) (rev b)) (\<lambda>r. Inr (rev r))"

definition Linear_shape :: "int \<times> int \<Rightarrow> shape \<Rightarrow> error + shape" where
  "Linear_shape layer s =
     (if s \<noteq> [] \<and> int (last s) = fst layer then Inr (butlast s @ [nat (snd layer)])
      else Inl RuntimeError)"

definition LayerNorm_shape :: "int \<Rightarrow> shape \<Rightarrow> error + shape" where
  "LayerNorm_shape normalized_shape s =
     (if s \<noteq> [] \<and> int (last s) = normalized_shape then Inr s else Inl RuntimeError)"

text \<open>
  \<^verbatim>\<open>nn.Embedding\<close> on a batch of token indices: every index must lie in the table.
\<close>

definition Embedding_shape :: "int \<times> int \<Rightarrow> int list list \<Rightarrow> error + shape" where
  "Embedding_shape table x =
     (if list_all (list_all (\<lambda>t. 0 \<le> t \<and> t < fst table)) x
      then Inr [length x, dim1 x, nat (snd table)] else Inl IndexError)"

text \<open>\<^verbatim>\<open>torch.arange(0, seq_length).expand(N, seq_length)\<close>.\<close>

definition positions :: "nat \<Rightarrow> nat \<Rightarrow> int list list" where
  "positions N seq_length = replicate N (map int [0..<seq_length])"

definition einsum_nqhd_nkhd_shape :: "shape \<Rightarrow> shape \<Rightarrow> error + shape" where
  "einsum_nqhd_nkhd_shape a b =
     (case (a, b) of
        ([n, q, h, d], [n', k, h', d']) \<Rightarrow>
          ebind (broadcast_dim n n') (\<lambda>N.
          ebind (broadcast_dim h h') (\<lambda>H.
          ebind (broadcast_dim d d') (\<lambda>_. Inr [N, H, q, k])))
      | _ \<Rightarrow> Inl RuntimeError)"

definition einsum_nhql_nlhd_shape :: "shape \<Rightarrow> shape \<Rightarrow> error + shape" where
  "einsum_nhql_nlhd_shape a b =
     (case (a, b) of
        ([n, h, q, l], [n', l', h', d]) \<Rightarrow>
          ebind (broadcast_dim n n') (\<lambda>N.
          ebind (broadcast_dim h h') (\<lambda>H.
          ebind (broadcast_dim l l') (\<lambda>_. Inr [N, q, H, d])))
      | _ \<Rightarrow> Inl RuntimeError)"

definition softmax_shape :: "nat \<Rightarrow> shape \<Rightarrow> error + shape" where
  "softmax_shape axis s = (if axis < length s then Inr s else Inl IndexError)"

definition SelfAttention_forward_shape ::
  "SelfAttention \<Rightarrow> shape \<Rightarrow> shape \<Rightarrow> shape \<Rightarrow> shape option \<Rightarrow> error + shape" where
  "SelfAttention_forward_shape self values keys queries mask' =
     (let H = nat (heads self); D = nat (head_dim self) in
      ebind (shape_index queries 0) (\<lambda>N.
      ebind (shape_index values 1) (\<lambda>value_len.
      ebind (shape_index keys 1) (\<lambda>key_len.
      ebind (shape_index queries 1) (\<lambda>query_len.
      ebind (reshape_shape values [N, value_len, H, D]) (\<lambda>values1.
      ebind (reshape_shape keys [N, key_len, H, D]) (\<lambda>keys1.
      ebind (reshape_shape queries [N, query_len, H, D]) (\<lambda>queries1.
      ebind (Linear_shape (head_dim self, head_dim self) values1) (\<lambda>values2.
      ebind (Linear_shape (head_dim self, head_dim self) keys1) (\<lambda>keys2.
      ebind (Linear_shape (head_dim self, head_dim self) queries1) (\<lambda>queries2.
      ebind (einsum_nqhd_nkhd_shape queries2 keys2) (\<lambda>energy.
      ebind (case mask' of None \<Rightarrow> Inr energy
             | Some m \<Rightarrow> broadcast_shapes energy m) (\<lambda>energy1.
      ebind (softmax_shape 3 energy1) (\<lambda>attention'.
      ebind (einsum_nhql_nlhd_shape attention' values2) (\<lambda>out.
      ebind (reshape_shape out [N, query_len, H * D]) (\<lambda>out1.
      Linear_shape (heads self * head_dim self, embed_size self) out1))))))))))))))))"

definition TransformerBlock_forward_shape ::
  "TransformerBlock \<Rightarrow> shape \<Rightarrow> shape \<Rightarrow> shape \<Rightarrow> shape option \<Rightarrow> error + shape" where
  "TransformerBlock_forward_shape self values keys queries mask' =
     ebind (SelfAttention_forward_shape (attention self) values keys queries mask') (\<lambda>att.
     ebind (broadcast_shapes att queries) (\<lambda>s1.
     ebind (LayerNorm_shape (norm1 self) s1) (\<lambda>x.
     ebind (Linear_shape (fst (feed_forward self)) x) (\<lambda>f1.
     ebind (Linear_shape (snd (feed_forward self)) f1) (\<lambda>forward.
     ebind (broadcast_shapes forward x) (\<lambda>s2.
     LayerNorm_shape (norm2 self) s2))))))"

text \<open>The loop \<^verbatim>\<open>for layer in self.layers: out = layer(out, out, out, mask)\<close>.\<close>

fun Encoder_layers_shape :: "TransformerBlock list \<Rightarrow> shape \<Rightarrow> shape \<Rightarrow> error + shape" where
  "Encoder_layers_shape [] out mask' = Inr out"
| "Encoder_layers_shape (layer # layers) out mask' =
     ebind (TransformerBlock_forward_shape layer out out out (Some mask'))
       (\<lambda>out'. Encoder_layers_shape layers out' mask')"

definition Encoder_forward_shape :: "Encoder \<Rightarrow> int list list \<Rightarrow> shape \<Rightarrow> error + shape" where
  "Encoder_forward_shape self x mask' =
     (let N = length x; seq_length = dim1 x in
      ebind (Embedding_shape (enc_word_embedding self) x) (\<lambda>we.
      ebind (Embedding_shape (enc_position_embedding self) (positions N seq_length)) (\<lambda>pe.
      ebind (broadcast_shapes we pe) (\<lambda>out.
      Encoder_layers_shape (enc_layers self) out mask'))))"

definition DecoderBLock_forward_shape ::
  "DecoderBLock \<Rightarrow> shape \<Rightarrow> shape \<Rightarrow> shape \<Rightarrow> shape \<Rightarrow> shape \<Rightarrow> error + shape" where
  "DecoderBLock_forward_shape self x values keys src_mask trg_mask =
     ebind (SelfAttention_forward_shape (db_attention self) x x x (Some trg_mask)) (\<lambda>att.
     ebind (broadcast_shapes att x) (\<lambda>s.
     ebind (LayerNorm_shape (db_norm self) s) (\<lambda>queries.
     TransformerBlock_forward_shape (transformer_block self) values keys queries
       (Some src_mask))))"

fun Decoder_layers_shape ::
  "DecoderBLock list \<Rightarrow> shape \<Rightarrow> shape \<Rightarrow> shape \<Rightarrow> shape \<Rightarrow> error + shape" where
  "Decoder_layers_shape [] x enc_out src_mask trg_mask = Inr x"
| "Decoder_layers_shape (layer # layers) x enc_out src_mask trg_mask =
     ebind (DecoderBLock_forward_shape layer x enc_out enc_out src_mask trg_mask)
       (\<lambda>x'. Decoder_layers_shape layers x' enc_out src_mask trg_mask)"

definition Decoder_forward_shape ::
  "Decoder \<Rightarrow> int list list \<Rightarrow> shape \<Rightarrow> shape \<Rightarrow> shape \<Rightarrow> error + shape" where
  "Decoder_forward_shape self x enc_out src_mask trg_mask =
     (let N = length x; seq_length = dim1 x in
      ebind (Embedding_shape (dec_word_embedding self) x) (\<lambda>we.
      ebind (Embedding_shape (dec_position_embedding self) (positions N seq_length)) (\<lambda>pe.
      ebind (broadcast_shapes we pe) (\<lambda>x0.
      ebind (Decoder_layers_shape (dec_layers self) x0 enc_out src_mask trg_mask) (\<lambda>x1.
      Linear_shape (dec_fc_out self) x1)))))"

definition make_src_mask_shape :: "int list list \<Rightarrow> shape" where
  "make_src_mask_shape src = [length src, 1, 1, dim1 src]"

definition make_trg_mask_shape :: "int list list \<Rightarrow> shape" where
  "make_trg_mask_shape trg = [length trg, 1, dim1 trg, dim1 trg]"

definition Transformer_forward_shape ::
  "Transformer \<Rightarrow> int list list \<Rightarrow> int list list \<Rightarrow> error + shape" where
  "Transformer_forward_shape self src trg =
     (let src_mask = make_src_mask_shape src;
          trg_mask = make_trg_mask_shape trg in
      ebind (Encoder_forward_shape (encoder self) src src_mask) (\<lambda>enc_src.
      Decoder_forward_shape (decoder self) trg enc_src src_mask trg_mask))"

section \<open>The forward pass on values\<close>

text \<open>
  The whole forward pass on real-valued tensors, each module with its learned parameters.
  Dropout is the identity: this is the call with rate 0, the default of
  \<^verbatim>\<open>Transformer\<close>, or in evaluation mode. The reading is of the calls that the reading
  on shapes accepts: the token indices lie inside the embedding tables and the sizes fit.
\<close>

record Linear_params =
  weight :: "real list list"
  bias :: "real list"

text \<open>\<^verbatim>\<open>nn.Linear\<close> on one vector: \<open>y = x W\<^sup>T + b\<close>.\<close>

definition Linear_forward :: "Linear_params \<Rightarrow> real list \<Rightarrow> real list" where
  "Linear_forward l x = map2 (+) (Linear_nobias (weight l) x) (bias l)"

record LayerNorm_params =
  ln_weight :: "real list"
  ln_bias :: "real list"

definition mean :: "real list \<Rightarrow> real" where
  "mean xs = sum_list xs / real (length xs)"

text \<open>
  \<^verbatim>\<open>nn.LayerNorm(embed_size)\<close> on one vector, with the library's defaults: the biased
  variance, \<open>eps = 1e-5\<close> and the learned scale and shift.
\<close>

definition LayerNorm_forward :: "LayerNorm_params \<Rightarrow> real list \<Rightarrow> real list" where
  "LayerNorm_forward l x =
     (let mu = mean x;
          var = mean (map (\<lambda>v. (v - mu)\<^sup>2) x)
      in map (\<lambda>(v, g, b). (v - mu) / sqrt (var + 1 / 10 ^ 5) * g + b)
           (zip x (zip (ln_weight l) (ln_bias l))))"

definition relu :: "real \<Rightarrow> real" where
  "relu v = max 0 v"

text \<open>\<^verbatim>\<open>nn.Embedding\<close>: the row of the table at each token index.\<close>

definition Embedding_forward :: "real list list \<Rightarrow> int list list \<Rightarrow> tensor3" where
  "Embedding_forward table x = map (map (\<lambda>t. table ! nat t)) x"

text \<open>The sum of two tensors of the same shape.\<close>

definition tensor3_add :: "tensor3 \<Rightarrow> tensor3 \<Rightarrow> tensor3" where
  "tensor3_add a b = map2 (map2 (map2 (+))) a b"

text \<open>\<^verbatim>\<open>torch.einsum("nhql, nlhd -> nqhd", [attention, values])\<close>.\<close>

definition einsum_nhql_nlhd ::
  "nat \<Rightarrow> nat \<Rightarrow> nat \<Rightarrow> nat \<Rightarrow> nat \<Rightarrow> tensor4 \<Rightarrow> tensor4 \<Rightarrow> tensor4" where
  "einsum_nhql_nlhd N H Q L D attention' values =
     map (\<lambda>n. map (\<lambda>q. map (\<lambda>h. map (\<lambda>d.
       sum_list (map (\<lambda>l. attention' ! n ! h ! q ! l * values ! n ! l ! h ! d) [0..<L]))
       [0..<D]) [0..<H]) [0..<Q]) [0..<N]"

record SelfAttention_weights =
  projections :: SelfAttention_params
  fc_out :: Linear_params

text \<open>
  The whole of \<^verbatim>\<open>SelfAttention.forward\<close>; the reshape of line 46 joins the heads of each
  position.
\<close>

definition SelfAttention_forward ::
  "SelfAttention \<Rightarrow> SelfAttention_weights \<Rightarrow> tensor3 \<Rightarrow> tensor3 \<Rightarrow> tensor3 \<Rightarrow>
     tensor4 option \<Rightarrow> tensor3" where
  "SelfAttention_forward self w values keys queries mask' =
     (let N = length queries;
          value_len = dim1 values;
          key_len = dim1 keys;
          query_len = dim1 queries;
          H = nat (heads self);
          D = nat (head_dim self);
          values1 = reshape4 N value_len H D values;
          values2 = map (map (map (Linear_nobias (values_weight (projections w))))) values1;
          attention' = SelfAttention_attention self (projections w) values keys queries mask';
          out = einsum_nhql_nlhd N H query_len key_len D attention' values2;
          out1 = map (map concat) out
      in map (map (Linear_forward (fc_out w))) out1)"

record TransformerBlock_weights =
  attention_weights :: SelfAttention_weights
  norm1_weights :: LayerNorm_params
  norm2_weights :: LayerNorm_params
  feed_forward_weights :: "Linear_params \<times> Linear_params"

definition TransformerBlock_forward ::
  "TransformerBlock \<Rightarrow> TransformerBlock_weights \<Rightarrow> tensor3 \<Rightarrow> tensor3 \<Rightarrow> tensor3 \<Rightarrow>
     tensor4 option \<Rightarrow> tensor3" where
  "TransformerBlock_forward self w values keys queries mask' =
     (let attention' = SelfAttention_forward (attention self) (attention_weights w)
                         values keys queries mask';
          x = map (map (LayerNorm_forward (norm1_weights w))) (tensor3_add attention' queries);
          forward = map (map (\<lambda>v. Linear_forward (snd (feed_forward_weights w))
                      (map relu (Linear_forward (fst (feed_forward_weights w)) v)))) x
      in map (map (LayerNorm_forward (norm2_weights w))) (tensor3_add forward x))"

record Encoder_weights =
  enc_word_table :: "real list list"
  enc_position_table :: "real list list"
  enc_layer_weights :: "TransformerBlock_weights list"

fun Encoder_layers ::
  "(TransformerBlock \<times> TransformerBlock_weights) list \<Rightarrow> tensor3 \<Rightarrow> tensor4 \<Rightarrow> tensor3" where
  "Encoder_layers [] out mask' = out"
| "Encoder_layers ((layer, w) # layers) out mask' =
     Encoder_layers layers (TransformerBlock_forward layer w out out out (Some mask')) mask'"

definition Encoder_forward ::
  "Encoder \<Rightarrow> Encoder_weights \<Rightarrow> int list list \<Rightarrow> tensor4 \<Rightarrow> tensor3" where
  "Encoder_forward self w x mask' =
     (let N = length x;
          seq_length = dim1 x;
          out = tensor3_add (Embedding_forward (enc_word_table w) x)
                  (Embedding_forward (enc_position_table w) (positions N seq_length))
      in Encoder_layers (zip (enc_layers self) (enc_layer_weights w)) out mask')"

record DecoderBLock_weights =
  db_attention_weights :: SelfAttention_weights
  db_norm_weights :: LayerNorm_params
  transformer_block_weights :: TransformerBlock_weights

definition DecoderBLock_forward ::
  "DecoderBLock \<Rightarrow> DecoderBLock_weights \<Rightarrow> tensor3 \<Rightarrow> tensor3 \<Rightarrow> tensor3 \<Rightarrow> tensor4 \<Rightarrow>
     tensor4 \<Rightarrow> tensor3" where
  "DecoderBLock_forward self w x values keys src_mask trg_mask =
     (let attention' = SelfAttention_forward (db_attention self) (db_attention_weights w)
                         x x x (Some trg_mask);
          queries = map (map (LayerNorm_forward (db_norm_weights w))) (tensor3_add attention' x)
      in TransformerBlock_forward (transformer_block self) (transformer_block_weights w)
           values keys queries (Some src_mask))"

record Decoder_weights =
  dec_word_table :: "real list list"
  dec_position_table :: "real list list"
  dec_layer_weights :: "DecoderBLock_weights list"
  dec_fc_out_weights :: Linear_params

fun Decoder_layers ::
  "(DecoderBLock \<times> DecoderBLock_weights) list \<Rightarrow> tensor3 \<Rightarrow> tensor3 \<Rightarrow> tensor4 \<Rightarrow> tensor4
     \<Rightarrow> tensor3" where
  "Decoder_layers [] x enc_out src_mask trg_mask = x"
| "Decoder_layers ((layer, w) # layers) x enc_out src_mask trg_mask =
     Decoder_layers layers (DecoderBLock_forward layer w x enc_out enc_out src_mask trg_mask)
       enc_out src_mask trg_mask"

text \<open>The value of \<^verbatim>\<open>x\<close> in \<^verbatim>\<open>Decoder.forward\<close> when the loop over the layers ends.\<close>

definition Decoder_hidden ::
  "Decoder \<Rightarrow> Decoder_weights \<Rightarrow> int list list \<Rightarrow> tensor3 \<Rightarrow> tensor4 \<Rightarrow> tensor4 \<Rightarrow> tensor3" where
  "Decoder_hidden self w x enc_out src_mask trg_mask =
     (let N = length x;
          seq_length = dim1 x;
          x0 = tensor3_add (Embedding_forward (dec_word_table w) x)
                 (Embedding_forward (dec_position_table w) (positions N seq_length))
      in Decoder_layers (zip (dec_layers self) (dec_layer_weights w)) x0 enc_out
           src_mask trg_mask)"

text \<open>Lines 153 and 154: \<^verbatim>\<open>out = self.fc_out(x)\<close>, and \<^verbatim>\<open>out\<close> is returned.\<close>

definition Decoder_forward ::
  "Decoder \<Rightarrow> Decoder_weights \<Rightarrow> int list list \<Rightarrow> tensor3 \<Rightarrow> tensor4 \<Rightarrow> tensor4 \<Rightarrow> tensor3" where
  "Decoder_forward self w x enc_out src_mask trg_mask =
     (let x1 = Decoder_hidden self w x enc_out src_mask trg_mask;
          out = map (map (Linear_forward (dec_fc_out_weights w))) x1
      in out)"

record Transformer_weights =
  encoder_weights :: Encoder_weights
  decoder_weights :: Decoder_weights

text \<open>Lines 205 to 210: the entry point returns what the decoder returns.\<close>

definition Transformer_forward ::
  "Transformer \<Rightarrow> Transformer_weights \<Rightarrow> int list list \<Rightarrow> int list list \<Rightarrow> tensor3" where
  "Transformer_forward self w src trg =
     (let src_mask = make_src_mask self src;
          trg_mask = make_trg_mask self trg;
          enc_src = Encoder_forward (encoder self) (encoder_weights w) src src_mask;
          out = Decoder_forward (decoder self) (decoder_weights w) trg enc_src src_mask trg_mask
      in out)"

section \<open>Well-built modules\<close>

text \<open>
  What the constructors establish, as predicates for the proofs about the shapes: the sizes
  of an attention module, of a transformer block and of a decoder block fit the embed size.
\<close>

definition attention_ok :: "int \<Rightarrow> SelfAttention \<Rightarrow> bool" where
  "attention_ok E sa \<longleftrightarrow>
     embed_size sa = E \<and> 0 < heads sa \<and> 0 \<le> head_dim sa \<and> head_dim sa * heads sa = E"

definition block_ok :: "int \<Rightarrow> TransformerBlock \<Rightarrow> bool" where
  "block_ok E tb \<longleftrightarrow>
     attention_ok E (attention tb) \<and> norm1 tb = E \<and> norm2 tb = E
     \<and> fst (fst (feed_forward tb)) = E \<and> snd (snd (feed_forward tb)) = E
     \<and> snd (fst (feed_forward tb)) = fst (snd (feed_forward tb))
     \<and> 0 \<le> snd (fst (feed_forward tb))"

definition decoder_block_ok :: "int \<Rightarrow> DecoderBLock \<Rightarrow> bool" where
  "decoder_block_ok E db \<longleftrightarrow>
     attention_ok E (db_attention db) \<and> db_norm db = E \<and> block_ok E (transformer_block db)"

text \<open>
  A model without layers and its parameters, for an example of the returned logits:
  vocabularies of 2, embed size 1, one head, maximal length 1.
\<close>

definition tiny_model :: Transformer where
  "tiny_model =
     \<lparr>encoder = \<lparr>enc_word_embedding = (2, 1), enc_position_embedding = (1, 1),
                 enc_layers = [], enc_dropout = 0\<rparr>,
      decoder = \<lparr>dec_word_embedding = (2, 1), dec_position_embedding = (1, 1),
                 dec_layers = [], dec_fc_out = (1, 2), dec_dropout = 0\<rparr>,
      src_pad_idx = 0, trg_pad_idx = 0, device = ''cpu''\<rparr>"

definition tiny_weights :: Transformer_weights where
  "tiny_weights =
     \<lparr>encoder_weights =
        \<lparr>enc_word_table = [[0], [1]], enc_position_table = [[0]], enc_layer_weights = []\<rparr>,
      decoder_weights =
        \<lparr>dec_word_table = [[0], [2]], dec_position_table = [[1]], dec_layer_weights = [],
         dec_fc_out_weights = \<lparr>weight = [[- 1], [1]], bias = [2, 0]\<rparr>\<rparr>\<rparr>"

section \<open>Auxiliary notions for the float32 proofs\<close>

text \<open>
  The real number a finite float stands for, the values an exponential of a non-positive
  number can take (0, or a number above the underflow threshold and at most 1), and the
  exponential of a score after the maximum of its row is subtracted.
\<close>

fun f32_val :: "f32 \<Rightarrow> real" where
  "f32_val (Finite r) = r"
| "f32_val PosInf = 0"
| "f32_val NegInf = 0"
| "f32_val NaN = 0"

definition unit_value :: "real \<Rightarrow> bool" where
  "unit_value e \<longleftrightarrow> e = 0 \<or> (f32_underflow < e \<and> e \<le> 1)"

definition exp_shifted :: "real \<Rightarrow> real \<Rightarrow> real" where
  "exp_shifted mx r = f32_val (f32_exp (f32_sub (Finite r) (Finite mx)))"

section \<open>The attention weights as the specification words them\<close>

text \<open>
  The specification's step 4 and step 5, entry by entry: the score at \<open>(n, h, q, k)\<close> after
  the optional mask fill, and the weight as the exponential of the scaled score over the
  sum of the exponentials along the key axis. These two definitions follow the
  specification; the theorems compare them with the model of the source.
\<close>

definition spec_masked_score ::
  "tensor4 \<Rightarrow> tensor4 option \<Rightarrow> nat \<Rightarrow> nat \<Rightarrow> nat \<Rightarrow> nat \<Rightarrow> real" where
  "spec_masked_score energy mask' n h q k =
     (case mask' of
        None \<Rightarrow> energy ! n ! h ! q ! k
      | Some m \<Rightarrow> if mask_at m n h q k = 0 then neg_sentinel else energy ! n ! h ! q ! k)"

definition spec_attention_weight :: "int \<Rightarrow> (nat \<Rightarrow> real) \<Rightarrow> nat \<Rightarrow> nat \<Rightarrow> real" where
  "spec_attention_weight E score K k =
     exp (score k / sqrt (real_of_int E))
       / sum_list (map (\<lambda>j. exp (score j / sqrt (real_of_int E))) [0..<K])"


section \<open>Lists, softmax and rows of the attention tensor\<close>

lemma main_model_pad_idx [simp]:
  "src_pad_idx main_model = 0" "trg_pad_idx main_model = 0"
  by (simp_all add: main_model_def)

lemma length_imap [simp]: "length (imap f xs) = length xs"
  by (simp add: imap_def)

lemma nth_imap [simp]: "i < length xs \<Longrightarrow> imap f xs ! i = f i (xs ! i)"
  by (simp add: imap_def)

lemma sum_list_exp_pos:
  fixes xs :: "real list"
  shows "xs \<noteq> [] \<Longrightarrow> 0 < sum_list (map exp xs)"
proof (induction xs)
  case Nil
  then show ?case by simp
next
  case (Cons x xs)
  have "0 \<le> sum_list (map exp xs)"
    by (rule sum_list_nonneg) auto
  moreover have "0 < exp x" by simp
  ultimately show ?case by (simp add: add_pos_nonneg)
qed

lemma sum_list_map_divide:
  fixes f :: "'a \<Rightarrow> real"
  shows "sum_list (map (\<lambda>x. f x / c) xs) = sum_list (map f xs) / c"
  by (induction xs) (simp_all add: add_divide_distrib)

lemma length_softmax [simp]: "length (softmax xs) = length xs"
  by (simp add: softmax_def)

lemma softmax_nth:
  "i < length xs \<Longrightarrow> softmax xs ! i = exp (xs ! i) / sum_list (map exp xs)"
  by (simp add: softmax_def)

lemma softmax_pos: "i < length xs \<Longrightarrow> 0 < softmax xs ! i"
proof -
  assume i: "i < length xs"
  then have "xs \<noteq> []" by auto
  then have "0 < sum_list (map exp xs)" by (rule sum_list_exp_pos)
  then show ?thesis using i by (simp add: softmax_nth)
qed

lemma exp_le_sum_list:
  fixes xs :: "real list"
  shows "i < length xs \<Longrightarrow> exp (xs ! i) \<le> sum_list (map exp xs)"
proof -
  assume i: "i < length xs"
  have "map exp xs ! i \<le> sum_list (map exp xs)"
    by (rule member_le_sum_list) (use i in auto)
  then show ?thesis using i by simp
qed

lemma softmax_le_1: "i < length xs \<Longrightarrow> softmax xs ! i \<le> 1"
proof -
  assume i: "i < length xs"
  then have "xs \<noteq> []" by auto
  then have "0 < sum_list (map exp xs)" by (rule sum_list_exp_pos)
  then show ?thesis using i exp_le_sum_list [OF i] by (simp add: softmax_nth)
qed

lemma softmax_ratio:
  assumes "i < length xs" and "j < length xs"
  shows "softmax xs ! i = softmax xs ! j * exp (xs ! i - xs ! j)"
proof -
  have "exp (xs ! i) = exp (xs ! j) * exp (xs ! i - xs ! j)"
    by (simp add: exp_add [symmetric])
  then show ?thesis using assms by (simp add: softmax_nth)
qed

lemma softmax_uniform:
  assumes "\<forall>j < length xs. xs ! j = c" and "i < length xs"
  shows "softmax xs ! i = 1 / real (length xs)"
proof -
  have "xs = replicate (length xs) c"
    using assms(1) by (simp add: list_eq_iff_nth_eq)
  then have "map exp xs = replicate (length xs) (exp c)"
    by (metis map_replicate)
  then have "sum_list (map exp xs) = real (length xs) * exp c"
    by (simp add: sum_list_replicate)
  then show ?thesis using assms by (simp add: softmax_nth)
qed

lemma map_index_eq: "map (\<lambda>i. f (xs ! i)) [0..<length xs] = map f xs"
proof -
  have "map (\<lambda>i. f (xs ! i)) [0..<length xs] = map f (map (\<lambda>i. xs ! i) [0..<length xs])"
    by (simp add: o_def)
  then show ?thesis by (simp only: map_nth)
qed

lemma masked_fill_row:
  assumes "n < length energy" and "h < length (energy ! n)" and "q < length (energy ! n ! h)"
  shows "masked_fill energy m v ! n ! h ! q =
           map (\<lambda>k. if mask_at m n h q k = 0 then v else energy ! n ! h ! q ! k)
             [0..<length (energy ! n ! h ! q)]"
  using assms by (simp add: masked_fill_def) (simp add: imap_def)

lemma attention_row:
  assumes "n < length energy" and "h < length (energy ! n)" and "q < length (energy ! n ! h)"
  shows "attention_of_energy E energy mask' ! n ! h ! q =
           softmax (map (\<lambda>k. spec_masked_score energy mask' n h q k / sqrt (real_of_int E))
             [0..<length (energy ! n ! h ! q)])"
proof (cases mask')
  case None
  have "map (\<lambda>k. energy ! n ! h ! q ! k / sqrt (real_of_int E)) [0..<length (energy ! n ! h ! q)]
        = map (\<lambda>e. e / sqrt (real_of_int E)) (energy ! n ! h ! q)"
    by (rule map_index_eq)
  then show ?thesis
    using assms None
    by (simp add: attention_of_energy_def softmax_dim3_def spec_masked_score_def)
next
  case (Some m)
  have l: "length (masked_fill energy m neg_sentinel) = length energy"
    "length (masked_fill energy m neg_sentinel ! n) = length (energy ! n)"
    "length (masked_fill energy m neg_sentinel ! n ! h) = length (energy ! n ! h)"
    using assms by (simp_all add: masked_fill_def)
  show ?thesis
    using assms Some l
    by (simp add: attention_of_energy_def softmax_dim3_def spec_masked_score_def
        masked_fill_row o_def)
qed

lemma energy_dims:
  "length (SelfAttention_energy self p ks qs) = length qs"
  "n < length qs \<Longrightarrow> length (SelfAttention_energy self p ks qs ! n) = nat (heads self)"
  "n < length qs \<Longrightarrow> h < nat (heads self) \<Longrightarrow>
     length (SelfAttention_energy self p ks qs ! n ! h) = dim1 qs"
  "n < length qs \<Longrightarrow> h < nat (heads self) \<Longrightarrow> q < dim1 qs \<Longrightarrow>
     length (SelfAttention_energy self p ks qs ! n ! h ! q) = dim1 ks"
  by (simp_all add: SelfAttention_energy_def einsum_nqhd_nkhd_def Let_def)

lemma bnth_replicate: "n < N \<Longrightarrow> bnth (replicate N x) n = x"
  by (simp add: bnth_def)

lemma bnth_singleton [simp]: "bnth [x] i = x"
  by (simp add: bnth_def)

lemma bnth_in_range: "i < length xs \<Longrightarrow> bnth xs i = xs ! i"
  by (auto simp: bnth_def)

lemma length_tril [simp]: "length (tril m) = length m"
  by (simp add: tril_def)

lemma tril_ones_nth:
  "q < T \<Longrightarrow> k < T \<Longrightarrow> tril (ones T T) ! q ! k = (if k \<le> q then 1 else 0)"
  by (simp add: tril_def ones_def)

lemma tril_ones_row_length: "q < T \<Longrightarrow> length (tril (ones T T) ! q) = T"
  by (simp add: tril_def ones_def)

lemma length_ones [simp]: "length (ones r c) = r"
  by (simp add: ones_def)

lemma make_trg_mask_at:
  assumes "n < length trg" and "q < dim1 trg" and "k < dim1 trg"
  shows "mask_at (make_trg_mask tr trg) n h q k = (if k \<le> q then 1 else 0)"
proof -
  let ?T = "dim1 trg"
  have "mask_at (make_trg_mask tr trg) n h q k = bnth (bnth (tril (ones ?T ?T)) q) k"
    using assms by (simp add: mask_at_def make_trg_mask_def Let_def bnth_replicate)
  also have "\<dots> = bnth (tril (ones ?T ?T) ! q) k"
    using assms by (simp add: bnth_in_range)
  also have "\<dots> = tril (ones ?T ?T) ! q ! k"
    using assms by (simp add: bnth_in_range tril_ones_row_length)
  finally show ?thesis using assms by (simp add: tril_ones_nth)
qed

lemma make_src_mask_at:
  assumes "n < length src" and "k < length (src ! n)"
  shows "mask_at (make_src_mask tr src) n h q k = (if src ! n ! k \<noteq> src_pad_idx tr then 1 else 0)"
proof -
  have "bnth (make_src_mask tr src) n = make_src_mask tr src ! n"
    using assms by (simp add: bnth_in_range make_src_mask_def)
  then have "mask_at (make_src_mask tr src) n h q k =
      bnth (map (\<lambda>t. if t \<noteq> src_pad_idx tr then 1 else 0) (src ! n)) k"
    using assms by (simp add: mask_at_def make_src_mask_def)
  then show ?thesis using assms by (simp add: bnth_in_range)
qed

lemma masked_fill_nth:
  assumes "n < length energy" and "h < length (energy ! n)" and "q < length (energy ! n ! h)"
    and "k < length (energy ! n ! h ! q)"
  shows "masked_fill energy m v ! n ! h ! q ! k =
           (if mask_at m n h q k = 0 then v else energy ! n ! h ! q ! k)"
  using assms by (simp add: masked_fill_row)


lemma imap_idem:
  assumes "\<And>i x. f i (f i x) = f i x"
  shows "imap f (imap f xs) = imap f xs"
  by (simp add: imap_def assms)

lemma masked_fill_idem: "masked_fill (masked_fill energy m v) m v = masked_fill energy m v"
  unfolding masked_fill_def
  by (intro imap_idem) simp

lemma softmax_twice_differs:
  fixes s :: real
  shows "softmax [softmax [0, 1, s] ! 0, softmax [0, 1, s] ! 1, s] \<noteq> softmax [0, 1, s]"
proof
  let ?w = "softmax [0, 1, s]"
  let ?r = "[?w ! 0, ?w ! 1, s]"
  assume eq: "softmax ?r = ?w"
  have w1: "?w ! 1 = ?w ! 0 * exp (1 - 0)"
    using softmax_ratio [of 1 "[0, 1, s]" 0] by simp
  have w2: "softmax ?r ! 1 = softmax ?r ! 0 * exp (?w ! 1 - ?w ! 0)"
    using softmax_ratio [of 1 ?r 0] by simp
  have pos: "0 < ?w ! 0"
    by (rule softmax_pos) simp
  have le: "?w ! 1 \<le> 1"
    by (rule softmax_le_1) simp
  from w1 w2 eq have "?w ! 0 * exp 1 = ?w ! 0 * exp (?w ! 1 - ?w ! 0)"
    by simp
  with pos have "exp (1::real) = exp (?w ! 1 - ?w ! 0)"
    by simp
  then have "?w ! 1 - ?w ! 0 = 1"
    by simp
  with pos le show False
    by linarith
qed

section \<open>The shapes through the modules\<close>

lemma ebind_simps [simp]: "ebind (Inr x) f = f x" "ebind (Inl e) f = Inl e"
  by (simp_all add: ebind_def)

lemma broadcast_dim_simps [simp]: "broadcast_dim a a = Inr a" "broadcast_dim a (Suc 0) = Inr a"
  by (simp_all add: broadcast_dim_def)

lemma broadcast_rev_same [simp]: "broadcast_rev s s = Inr s"
  by (induction s) simp_all

lemma broadcast_shapes_same [simp]: "broadcast_shapes s s = Inr s"
  by (simp add: broadcast_shapes_def)

lemma SelfAttention_forward_shape_nat:
  assumes h: "heads sa = int H" and d: "head_dim sa = int D" and e: "embed_size sa = int (H * D)"
    and m: "m = None \<or> m = Some [N, Suc 0, Suc 0, L] \<or> m = Some [N, Suc 0, Q, L]"
  shows "SelfAttention_forward_shape sa [N, L, H * D] [N, L, H * D] [N, Q, H * D] m
      = Inr [N, Q, H * D]"
proof -
  have mask_ok: "(case m of None \<Rightarrow> Inr [N, H, Q, L] | Some m' \<Rightarrow> broadcast_shapes [N, H, Q, L] m')
      = Inr [N, H, Q, L]"
    using m by (auto simp: broadcast_shapes_def)
  have n: "nat (int H * int D) = H * D"
    by (simp add: nat_mult_distrib)
  show ?thesis
    unfolding SelfAttention_forward_shape_def Let_def h d e
    by (simp add: n shape_index_def reshape_shape_def Linear_shape_def
        einsum_nqhd_nkhd_shape_def einsum_nhql_nlhd_shape_def softmax_shape_def mask_ok)
qed

lemma SelfAttention_forward_shape_ok:
  assumes "attention_ok E sa"
    and "m = None \<or> m = Some [N, Suc 0, Suc 0, L] \<or> m = Some [N, Suc 0, Q, L]"
  shows "SelfAttention_forward_shape sa [N, L, nat E] [N, L, nat E] [N, Q, nat E] m
           = Inr [N, Q, nat E]"
proof -
  define H D where "H = nat (heads sa)" and "D = nat (head_dim sa)"
  have h: "heads sa = int H" and d: "head_dim sa = int D"
    using assms(1) by (simp_all add: attention_ok_def H_def D_def)
  have "E = head_dim sa * heads sa"
    using assms(1) by (simp add: attention_ok_def)
  then have E: "E = int (H * D)"
    by (simp add: h d mult.commute)
  then have e: "embed_size sa = int (H * D)"
    using assms(1) by (simp add: attention_ok_def)
  have "nat E = H * D"
    unfolding E by (rule nat_int)
  then show ?thesis
    using SelfAttention_forward_shape_nat [OF h d e assms(2)] by simp
qed

lemma TransformerBlock_forward_shape_ok:
  assumes "block_ok E tb" and "0 \<le> E"
    and "m = None \<or> m = Some [N, Suc 0, Suc 0, L] \<or> m = Some [N, Suc 0, Q, L]"
  shows "TransformerBlock_forward_shape tb [N, L, nat E] [N, L, nat E] [N, Q, nat E] m
           = Inr [N, Q, nat E]"
proof -
  have a: "SelfAttention_forward_shape (attention tb) [N, L, nat E] [N, L, nat E] [N, Q, nat E] m
      = Inr [N, Q, nat E]"
    using assms by (intro SelfAttention_forward_shape_ok) (simp_all add: block_ok_def)
  obtain F where ff: "feed_forward tb = ((E, F), (F, E))" and F: "0 \<le> F"
    using assms(1) by (cases "feed_forward tb") (auto simp: block_ok_def)
  show ?thesis
    using assms(1,2) F
    by (simp add: TransformerBlock_forward_shape_def a ff block_ok_def LayerNorm_shape_def
        Linear_shape_def)
qed

lemma Encoder_layers_shape_ok:
  assumes "\<forall>tb \<in> set ls. block_ok E tb" and "0 \<le> E"
  shows "Encoder_layers_shape ls [N, S, nat E] [N, Suc 0, Suc 0, S] = Inr [N, S, nat E]"
  using assms
  by (induction ls) (simp_all add: TransformerBlock_forward_shape_ok)

lemma DecoderBLock_forward_shape_ok:
  assumes "decoder_block_ok E db" and "0 \<le> E"
  shows "DecoderBLock_forward_shape db [N, T, nat E] [N, S, nat E] [N, S, nat E]
           [N, Suc 0, Suc 0, S] [N, Suc 0, T, T] = Inr [N, T, nat E]"
proof -
  have a: "SelfAttention_forward_shape (db_attention db) [N, T, nat E] [N, T, nat E]
      [N, T, nat E] (Some [N, Suc 0, T, T]) = Inr [N, T, nat E]"
    using assms by (intro SelfAttention_forward_shape_ok) (simp_all add: decoder_block_ok_def)
  have b: "TransformerBlock_forward_shape (transformer_block db) [N, S, nat E] [N, S, nat E]
      [N, T, nat E] (Some [N, Suc 0, Suc 0, S]) = Inr [N, T, nat E]"
    using assms by (intro TransformerBlock_forward_shape_ok) (simp_all add: decoder_block_ok_def)
  show ?thesis
    using assms
    by (simp add: DecoderBLock_forward_shape_def a b decoder_block_ok_def LayerNorm_shape_def)
qed

lemma Decoder_layers_shape_ok:
  assumes "\<forall>db \<in> set ls. decoder_block_ok E db" and "0 \<le> E"
  shows "Decoder_layers_shape ls [N, T, nat E] [N, S, nat E] [N, Suc 0, Suc 0, S] [N, Suc 0, T, T]
           = Inr [N, T, nat E]"
  using assms
  by (induction ls) (simp_all add: DecoderBLock_forward_shape_ok)

lemma ebind_eq_Inr: "ebind m f = Inr y \<longleftrightarrow> (\<exists>x. m = Inr x \<and> f x = Inr y)"
  by (cases m) simp_all

lemma SelfAttention_init_ok:
  assumes "SelfAttention_init E H = Inr sa" and "0 < H"
  shows "attention_ok E sa"
  using assms
  by (auto simp: SelfAttention_init_def nn_Linear_init_def Let_def attention_ok_def
      split: if_splits)

lemma TransformerBlock_init_ok:
  assumes "TransformerBlock_init E H dr fe = Inr tb" and "0 < H"
  shows "block_ok E tb"
proof -
  from assms(1) obtain sa where sa: "SelfAttention_init E H = Inr sa"
    and tb: "attention tb = sa" "norm1 tb = E" "norm2 tb = E"
      "feed_forward tb = ((E, fe * E), (fe * E, E))" and fe: "0 \<le> fe * E"
    by (auto simp: TransformerBlock_init_def ebind_eq_Inr nn_LayerNorm_init_def
        nn_Linear_init_def nn_Dropout_init_def split: if_splits)
  from sa assms(2) have "attention_ok E sa" by (rule SelfAttention_init_ok)
  with tb fe show ?thesis by (simp add: block_ok_def)
qed

lemma DecoderBLock_init_ok:
  assumes "DecoderBLock_init E H fe dr dev = Inr db" and "0 < H"
  shows "decoder_block_ok E db"
proof -
  from assms(1) obtain sa tb where sa: "SelfAttention_init E H = Inr sa"
    and tb: "TransformerBlock_init E H dr fe = Inr tb"
    and db: "db_attention db = sa" "db_norm db = E" "transformer_block db = tb"
    by (auto simp: DecoderBLock_init_def ebind_eq_Inr nn_LayerNorm_init_def
        nn_Dropout_init_def split: if_splits)
  from sa assms(2) have "attention_ok E sa" by (rule SelfAttention_init_ok)
  moreover from tb assms(2) have "block_ok E tb" by (rule TransformerBlock_init_ok)
  ultimately show ?thesis using db by (simp add: decoder_block_ok_def)
qed

lemma init_layers_all:
  assumes "init_layers L layer = Inr ls" and "\<And>b. layer = Inr b \<Longrightarrow> P b"
  shows "\<forall>b \<in> set ls. P b"
  using assms by (auto simp: init_layers_def ebind_eq_Inr split: if_splits)

lemma Encoder_init_ok:
  assumes "Encoder_init sv E L H dev fe dr ml = Inr enc" and "0 < H"
  shows "enc_word_embedding enc = (sv, E)" and "enc_position_embedding enc = (ml, E)"
    and "\<forall>tb \<in> set (enc_layers enc). block_ok E tb"
proof -
  from assms(1) obtain ls where ls: "init_layers L (TransformerBlock_init E H dr fe) = Inr ls"
    and enc: "enc_word_embedding enc = (sv, E)" "enc_position_embedding enc = (ml, E)"
      "enc_layers enc = ls"
    by (auto simp: Encoder_init_def ebind_eq_Inr nn_Embedding_init_def nn_Dropout_init_def
        split: if_splits)
  from ls have "\<forall>tb \<in> set ls. block_ok E tb"
    by (rule init_layers_all) (rule TransformerBlock_init_ok [OF _ assms(2)])
  with enc show "enc_word_embedding enc = (sv, E)" and "enc_position_embedding enc = (ml, E)"
    and "\<forall>tb \<in> set (enc_layers enc). block_ok E tb"
    by simp_all
qed

lemma Decoder_init_ok:
  assumes "Decoder_init tv E L H fe dr dev ml = Inr dec" and "0 < H"
  shows "dec_word_embedding dec = (tv, E)" and "dec_position_embedding dec = (ml, E)"
    and "\<forall>db \<in> set (dec_layers dec). decoder_block_ok E db"
    and "dec_fc_out dec = (E, tv)" and "0 \<le> tv"
proof -
  from assms(1) obtain ls where
    ls: "init_layers L (DecoderBLock_init E H fe dr dev) = Inr ls"
    and dec: "dec_word_embedding dec = (tv, E)" "dec_position_embedding dec = (ml, E)"
      "dec_layers dec = ls" "dec_fc_out dec = (E, tv)" "0 \<le> tv"
    by (auto simp: Decoder_init_def ebind_eq_Inr nn_Embedding_init_def nn_Dropout_init_def
        nn_Linear_init_def split: if_splits)
  from ls have "\<forall>db \<in> set ls. decoder_block_ok E db"
    by (rule init_layers_all) (rule DecoderBLock_init_ok [OF _ assms(2)])
  with dec show "dec_word_embedding dec = (tv, E)" and "dec_position_embedding dec = (ml, E)"
    and "\<forall>db \<in> set (dec_layers dec). decoder_block_ok E db"
    and "dec_fc_out dec = (E, tv)" and "0 \<le> tv"
    by simp_all
qed

lemma dim1_positions: "dim1 (positions (length x) (dim1 x)) = dim1 x"
  by (cases x) (simp_all add: dim1_def positions_def)

lemma Embedding_shape_positions:
  assumes "int (dim1 x) \<le> ml"
  shows "Embedding_shape (ml, E) (positions (length x) (dim1 x)) = Inr [length x, dim1 x, nat E]"
proof -
  have "list_all (\<lambda>t. 0 \<le> t \<and> t < ml) (map int [0..<dim1 x])"
    using assms by (auto simp: list_all_iff)
  then have "list_all (list_all (\<lambda>t. 0 \<le> t \<and> t < ml)) (positions (length x) (dim1 x))"
    by (simp add: positions_def list_all_iff)
  then show ?thesis
    by (simp add: Embedding_shape_def dim1_positions) (simp add: positions_def)
qed

lemma Embedding_shape_tokens:
  assumes "list_all (list_all (\<lambda>t. 0 \<le> t \<and> t < v)) x"
  shows "Embedding_shape (v, E) x = Inr [length x, dim1 x, nat E]"
  using assms by (simp add: Embedding_shape_def)

lemma Transformer_forward_shape_ok:
  assumes init: "Transformer_init sv tv sp tp E L fe H dr dev ml = Inr tr"
    and pos: "0 < E" "0 < H"
    and batch: "length src = length trg"
    and src: "list_all (list_all (\<lambda>t. 0 \<le> t \<and> t < sv)) src" "int (dim1 src) \<le> ml"
    and trg: "list_all (list_all (\<lambda>t. 0 \<le> t \<and> t < tv)) trg" "int (dim1 trg) \<le> ml"
  shows "Transformer_forward_shape tr src trg = Inr [length trg, dim1 trg, nat tv]"
proof -
  from init obtain enc dec where enc: "Encoder_init sv E L H dev fe dr ml = Inr enc"
    and dec: "Decoder_init tv E L H fe dr dev ml = Inr dec"
    and tr: "encoder tr = enc" "decoder tr = dec"
    by (auto simp: Transformer_init_def ebind_eq_Inr)
  note e = Encoder_init_ok [OF enc pos(2)]
  note d = Decoder_init_ok [OF dec pos(2)]
  have E: "0 \<le> E" "int (nat E) = E" using pos(1) by simp_all
  let ?N = "length trg" and ?S = "dim1 src" and ?T = "dim1 trg"
  have "Encoder_forward_shape enc src [length src, Suc 0, Suc 0, ?S]
      = Inr [length src, ?S, nat E]"
    by (simp add: Encoder_forward_shape_def Let_def e(1,2) Embedding_shape_tokens [OF src(1)]
        Embedding_shape_positions [OF src(2)] Encoder_layers_shape_ok [OF e(3) E(1)])
  then have enc_out: "Encoder_forward_shape enc src [?N, Suc 0, Suc 0, ?S] = Inr [?N, ?S, nat E]"
    by (simp only: batch)
  have dec_out: "Decoder_forward_shape dec trg [?N, ?S, nat E] [?N, Suc 0, Suc 0, ?S]
      [?N, Suc 0, ?T, ?T] = Inr [?N, ?T, nat tv]"
    by (simp add: Decoder_forward_shape_def Let_def d(1,2,4) Embedding_shape_tokens [OF trg(1)]
        Embedding_shape_positions [OF trg(2)] Decoder_layers_shape_ok [OF d(3) E(1)]
        Linear_shape_def E)
  show ?thesis
    using batch
    by (simp add: Transformer_forward_shape_def Let_def make_src_mask_shape_def
        make_trg_mask_shape_def tr enc_out dec_out)
qed

lemma main_model_init: "Transformer_init 10 10 0 0 256 6 4 8 0 ''mps'' 100 = Inr main_model"
  by (simp add: Transformer_init_def Encoder_init_def Decoder_init_def init_layers_def
      TransformerBlock_init_def DecoderBLock_init_def SelfAttention_init_def nn_Linear_init_def
      nn_Embedding_init_def nn_LayerNorm_init_def nn_Dropout_init_def main_model_def
      main_block_def)

section \<open>Softmax and attention in the range of float32\<close>

lemma f32_underflow_pos: "0 < f32_underflow"
  by (simp add: f32_underflow_def)

lemma f32_underflow_less_1: "f32_underflow < 1"
  by (simp add: f32_underflow_def)

lemma f32_overflow_gt_1: "1 < f32_overflow"
  by (simp add: f32_overflow_def)

lemma exp_minus_150: "exp (- 150 :: real) \<le> f32_underflow"
proof -
  have "(2::real) \<le> exp 1"
    using exp_ge_add_one_self [of "1::real"] by simp
  then have "(2::real) ^ 150 \<le> exp 1 ^ 150"
    by (intro power_mono) simp_all
  also have "\<dots> = exp (real 150 * 1)"
    by (rule exp_of_nat_mult [symmetric])
  finally have le: "(2::real) ^ 150 \<le> exp 150"
    by simp
  have "inverse (exp (150::real)) \<le> inverse (2 ^ 150)"
    using le by (intro le_imp_inverse_le) simp_all
  then show ?thesis
    unfolding f32_underflow_def exp_minus by (simp only: inverse_eq_divide)
qed

lemma round_f32_unit:
  assumes "0 \<le> r" and "r \<le> 1"
  shows "round_f32 r = Finite (if r \<le> f32_underflow then 0 else r)"
  using assms f32_overflow_gt_1 by (simp add: round_f32_def)

lemma round_f32_1 [simp]: "round_f32 1 = Finite 1"
  using f32_underflow_less_1 by (simp add: round_f32_unit)

lemma round_f32_0 [simp]: "round_f32 0 = Finite 0"
  using f32_underflow_pos by (simp add: round_f32_unit)

lemma exp_step:
  assumes "r \<le> mx"
  shows "\<exists>e. f32_exp (f32_sub (Finite r) (Finite mx)) = Finite e \<and> unit_value e
           \<and> e \<le> exp (r - mx + f32_underflow)
           \<and> (r - mx \<le> - 150 \<longrightarrow> e = 0) \<and> (r = mx \<longrightarrow> e = 1)"
proof -
  let ?d = "r - mx"
  have d: "?d \<le> 0" using assms by simp
  have sub: "f32_sub (Finite r) (Finite mx) = round_f32 ?d"
    by (simp add: f32_sub_def)
  consider (ninf) "?d \<le> - f32_overflow"
    | (zero) "- f32_overflow < ?d" "\<bar>?d\<bar> \<le> f32_underflow"
    | (fin) "- f32_overflow < ?d" "f32_underflow < \<bar>?d\<bar>"
    by linarith
  then show ?thesis
  proof cases
    case ninf
    then have "round_f32 ?d = NegInf"
      using f32_overflow_gt_1 by (simp add: round_f32_def)
    moreover have "?d \<noteq> 0" using ninf f32_overflow_gt_1 by linarith
    ultimately show ?thesis
      by (simp add: sub unit_value_def)
  next
    case zero
    then have "round_f32 ?d = Finite 0"
      using d f32_overflow_gt_1 by (simp add: round_f32_def)
    moreover have "1 \<le> exp (?d + f32_underflow)"
      using zero(2) by simp
    moreover have "\<not> ?d \<le> - 150"
      using zero(2) f32_underflow_less_1 by linarith
    ultimately show ?thesis
      using f32_underflow_less_1 by (simp add: sub unit_value_def)
  next
    case fin
    then have rd: "round_f32 ?d = Finite ?d"
      using d f32_overflow_gt_1 by (simp add: round_f32_def)
    have e01: "0 \<le> exp ?d" "exp ?d \<le> 1"
      using d by simp_all
    have "?d \<noteq> 0" using fin(2) f32_underflow_pos by auto
    moreover have "exp ?d \<le> exp (?d + f32_underflow)"
      using f32_underflow_pos by simp
    moreover have "exp ?d \<le> f32_underflow" if "?d \<le> - 150"
    proof -
      have "exp ?d \<le> exp (- 150)" using that by simp
      then show ?thesis using exp_minus_150 by linarith
    qed
    ultimately show ?thesis
      using e01 by (auto simp: sub rd round_f32_unit unit_value_def)
  qed
qed

lemma foldr_f32_max:
  assumes "rs \<noteq> []"
  shows "foldr f32_max (map Finite rs) NegInf = Finite (Max (set rs))"
  using assms
proof (induction rs)
  case Nil
  then show ?case by simp
next
  case (Cons r rs)
  show ?case
  proof (cases "rs = []")
    case True
    then show ?thesis by simp
  next
    case False
    with Cons.IH show ?thesis by (simp add: max.commute)
  qed
qed

lemma sum_unit_values:
  assumes "\<forall>e \<in> set es. unit_value e"
  shows "0 \<le> sum_list es" and "sum_list es = 0 \<or> f32_underflow < sum_list es"
proof -
  show nonneg: "0 \<le> sum_list es"
    using assms f32_underflow_pos
    by (intro sum_list_nonneg) (auto simp: unit_value_def)
  show "sum_list es = 0 \<or> f32_underflow < sum_list es"
    using assms
  proof (induction es)
    case Nil
    then show ?case by simp
  next
    case (Cons e es)
    have "0 \<le> sum_list es"
      using Cons.prems f32_underflow_pos
      by (intro sum_list_nonneg) (auto simp: unit_value_def)
    moreover have "e = 0 \<or> f32_underflow < e"
      using Cons.prems by (auto simp: unit_value_def)
    moreover have "sum_list es = 0 \<or> f32_underflow < sum_list es"
      using Cons by simp
    ultimately show ?case by auto
  qed
qed

lemma foldr_f32_add:
  assumes "\<forall>e \<in> set es. unit_value e"
  shows "foldr f32_add (map Finite es) (Finite 0) =
           (if sum_list es < f32_overflow then Finite (sum_list es) else PosInf)"
  using assms
proof (induction es)
  case Nil
  then show ?case using f32_overflow_gt_1 by simp
next
  case (Cons e es)
  have all: "\<forall>x \<in> set es. unit_value x" using Cons.prems by simp
  note s = sum_unit_values [OF all]
  have e: "0 \<le> e" "e = 0 \<or> f32_underflow < e"
    using Cons.prems f32_underflow_pos by (auto simp: unit_value_def)
  show ?case
  proof (cases "sum_list es < f32_overflow")
    case True
    then have ih: "foldr f32_add (map Finite es) (Finite 0) = Finite (sum_list es)"
      using Cons.IH [OF all] by simp
    have "round_f32 (e + sum_list es) =
        (if e + sum_list es < f32_overflow then Finite (e + sum_list es) else PosInf)"
      using e s f32_overflow_gt_1 f32_underflow_pos by (auto simp: round_f32_def)
    then show ?thesis by (simp add: ih)
  next
    case False
    then have ih: "foldr f32_add (map Finite es) (Finite 0) = PosInf"
      using Cons.IH [OF all] by simp
    have "\<not> e + sum_list es < f32_overflow"
      using False e(1) by linarith
    then show ?thesis by (simp add: ih)
  qed
qed

lemma exp_shifted:
  assumes "r \<le> mx"
  shows "f32_exp (f32_sub (Finite r) (Finite mx)) = Finite (exp_shifted mx r)"
    and "unit_value (exp_shifted mx r)"
    and "exp_shifted mx r \<le> exp (r - mx + f32_underflow)"
    and "r - mx \<le> - 150 \<Longrightarrow> exp_shifted mx r = 0"
    and "r = mx \<Longrightarrow> exp_shifted mx r = 1"
  using exp_step [OF assms] by (auto simp: exp_shifted_def)

lemma exp_shifted_range:
  assumes "r \<le> mx"
  shows "0 \<le> exp_shifted mx r" and "exp_shifted mx r \<le> 1"
  using exp_shifted(2) [OF assms] f32_underflow_pos by (auto simp: unit_value_def)

lemma exp_shifted_row:
  assumes "rs \<noteq> []" and "mx = Max (set rs)" and "es = map (exp_shifted mx) rs"
  shows "map (\<lambda>x. f32_exp (f32_sub x (Finite mx))) (map Finite rs) = map Finite es"
    and "\<forall>e \<in> set es. unit_value e"
    and "1 \<le> sum_list es"
    and "sum_list es \<le> real (length rs)"
    and "\<And>e. e \<in> set es \<Longrightarrow> 0 \<le> e \<and> e \<le> sum_list es"
proof -
  have le: "r \<le> mx" if "r \<in> set rs" for r
    using that by (simp add: assms(2))
  show "map (\<lambda>x. f32_exp (f32_sub x (Finite mx))) (map Finite rs) = map Finite es"
    using le by (simp add: assms(3) exp_shifted(1))
  show unit: "\<forall>e \<in> set es. unit_value e"
    using le by (auto simp: assms(3) exp_shifted(2))
  have nonneg: "0 \<le> e" if "e \<in> set es" for e
    using that le by (auto simp: assms(3) exp_shifted_range(1))
  have "mx \<in> set rs"
    using assms(1) by (simp add: assms(2))
  then have "exp_shifted mx mx \<in> set es"
    by (auto simp: assms(3))
  then have "1 \<in> set es"
    by (simp add: exp_shifted(5))
  then show "1 \<le> sum_list es"
    by (rule member_le_sum_list) (rule nonneg)
  have "sum_list (map (exp_shifted mx) rs) \<le> sum_list (map (\<lambda>r. 1) rs)"
    by (intro sum_list_mono) (rule exp_shifted_range(2) [OF le])
  then show "sum_list es \<le> real (length rs)"
    by (simp add: sum_list_triv assms(3))
  show "0 \<le> e \<and> e \<le> sum_list es" if "e \<in> set es" for e
    using that nonneg member_le_sum_list [of e es] by auto
qed

lemma softmax_f32_finite:
  assumes "rs \<noteq> []" and "mx = Max (set rs)" and "es = map (exp_shifted mx) rs"
  shows "softmax_f32 (map Finite rs) =
           (if sum_list es < f32_overflow
            then map (\<lambda>e. round_f32 (e / sum_list es)) es
            else map (\<lambda>e. Finite 0) es)"
proof -
  note r = exp_shifted_row [OF assms]
  have m: "foldr f32_max (map Finite rs) NegInf = Finite mx"
    using assms(1) by (simp add: foldr_f32_max assms(2))
  have s: "foldr f32_add (map Finite es) (Finite 0) =
      (if sum_list es < f32_overflow then Finite (sum_list es) else PosInf)"
    by (rule foldr_f32_add [OF r(2)])
  have nz: "sum_list es \<noteq> 0"
    using r(3) by linarith
  show ?thesis
    unfolding softmax_f32_def Let_def m r(1) s
    using nz by (simp add: o_def)
qed








lemma round_f32_exact:
  assumes "f32_underflow < \<bar>r\<bar>" and "\<bar>r\<bar> < f32_overflow"
  shows "round_f32 r = Finite r"
  using assms by (auto simp: round_f32_def)



lemma f32_overflow_gt_2_64: "(2::real) ^ 64 < f32_overflow"
  by (simp add: f32_overflow_def)










subsection \<open>Where the two readings of softmax agree\<close>

text \<open>
  On a row of at most \<open>2\<^sup>2\<^sup>0\<close> finite scores that lie within 80 of their maximum, none of
  them closer to it than \<open>2\<^sup>-\<^sup>1\<^sup>5\<^sup>0\<close> without being equal to it, nothing overflows or
  underflows, and the float32 reading returns the weights of the exact one.
\<close>

lemma exp_80_bound: "exp (80::real) < 2 ^ 130"
proof -
  have "exp (80::real) = exp (real 80 * 1)" by simp
  also have "\<dots> = exp 1 ^ 80" by (rule exp_of_nat_mult)
  also have "\<dots> \<le> 3 ^ 80" by (intro power_mono exp_le) simp
  also have "\<dots> < (2::real) ^ 130" by simp
  finally show ?thesis .
qed

lemma exp_minus_80_bound:
  assumes "- 80 \<le> d"
  shows "2 ^ 20 * f32_underflow < exp (d::real)"
proof -
  have "2 ^ 20 * f32_underflow = 1 / (2::real) ^ 130"
    by (simp add: f32_underflow_def)
  also have "\<dots> < 1 / exp (80::real)"
    using exp_80_bound by (intro divide_strict_left_mono) simp_all
  also have "\<dots> = exp (- 80 :: real)"
    by (simp add: exp_minus inverse_eq_divide)
  also have "\<dots> \<le> exp d" using assms by simp
  finally show ?thesis .
qed

lemma exp_shifted_exact:
  assumes "r = mx \<or> (f32_underflow < mx - r \<and> mx - r \<le> 80)"
  shows "exp_shifted mx r = exp (r - mx)"
proof (cases "r = mx")
  case True
  then show ?thesis by (simp add: exp_shifted(5))
next
  case False
  with assms have d: "f32_underflow < mx - r" "mx - r \<le> 80" by simp_all
  have "\<bar>r - mx\<bar> < f32_overflow"
    using d f32_underflow_pos f32_overflow_gt_2_64 by (simp add: abs_if) 
  then have sub: "round_f32 (r - mx) = Finite (r - mx)"
    using d(1) f32_underflow_pos by (intro round_f32_exact) (simp_all add: abs_if)
  have lo: "f32_underflow < exp (r - mx)"
  proof -
    have "f32_underflow \<le> 2 ^ 20 * f32_underflow"
      using f32_underflow_pos by simp
    also have "\<dots> < exp (r - mx)"
      using d(2) by (intro exp_minus_80_bound) simp
    finally show ?thesis .
  qed
  have hi: "exp (r - mx) \<le> 1"
    using d(1) f32_underflow_pos by simp
  have "exp (r - mx) < f32_overflow"
    using hi f32_overflow_gt_1 by linarith
  then have "round_f32 (exp (r - mx)) = Finite (exp (r - mx))"
    using lo by (intro round_f32_exact) simp_all
  then show ?thesis
    by (simp add: exp_shifted_def f32_sub_def sub)
qed

lemma softmax_shift:
  "softmax (map (\<lambda>r. r - c) rs) = softmax rs"
proof -
  have e: "exp (r - c) = exp r / exp c" for r :: real
    by (simp add: exp_diff)
  have "sum_list (map (\<lambda>r. exp (r - c)) rs) = sum_list (map exp rs) / exp c"
    by (simp add: e sum_list_map_divide)
  then show ?thesis
    by (simp add: softmax_def o_def e)
qed

lemma softmax_f32_agrees:
  assumes "rs \<noteq> []" and "length rs \<le> 2 ^ 20"
    and "\<forall>r \<in> set rs. r = Max (set rs)
           \<or> (f32_underflow < Max (set rs) - r \<and> Max (set rs) - r \<le> 80)"
  shows "softmax_f32 (map Finite rs) = map Finite (softmax rs)"
proof -
  define mx where "mx = Max (set rs)"
  define es where "es = map (exp_shifted mx) rs"
  define S where "S = sum_list es"
  note r = exp_shifted_row [OF assms(1) mx_def es_def]
  note sm = softmax_f32_finite [OF assms(1) mx_def es_def]
  have es': "es = map exp (map (\<lambda>r. r - mx) rs)"
    using assms(3) by (simp add: es_def mx_def exp_shifted_exact)
  have "real (length rs) \<le> 2 ^ 20"
    using assms(2) by (metis of_nat_le_iff of_nat_numeral of_nat_power)
  then have K: "S \<le> 2 ^ 20" using r(4) by (simp add: S_def)
  have S1: "1 \<le> S" using r(3) by (simp add: S_def)
  have Sov: "S < f32_overflow"
    using K f32_overflow_gt_2_64 by (simp add: S_def) 
  have w: "round_f32 (e / S) = Finite (e / S)" if "e \<in> set es" for e
  proof -
    from that obtain x where x: "x \<in> set rs" "e = exp (x - mx)"
      by (auto simp: es')
    have "- 80 \<le> x - mx" using assms(3) x(1) by (auto simp: mx_def)
    then have "2 ^ 20 * f32_underflow < e"
      unfolding x(2) by (rule exp_minus_80_bound)
    moreover have "S * f32_underflow \<le> 2 ^ 20 * f32_underflow"
      using K f32_underflow_pos by simp
    ultimately have "S * f32_underflow < e" by linarith
    then have lo: "f32_underflow < e / S"
      using S1 by (simp add: field_simps)
    have b: "0 \<le> e / S" "e / S \<le> 1"
      using r(5) [OF that] S1 by (simp_all add: S_def)
    have a: "\<bar>e / S\<bar> = e / S"
      using b(1) by (rule abs_of_nonneg)
    have "e / S < f32_overflow"
      using b(2) f32_overflow_gt_1 by linarith
    then show ?thesis
      using lo by (intro round_f32_exact) (simp_all only: a)
  qed
  have "softmax_f32 (map Finite rs) = map (\<lambda>e. round_f32 (e / S)) es"
    using Sov sm by (simp add: S_def)
  also have "\<dots> = map Finite (map (\<lambda>e. e / S) es)"
    using w by simp
  also have "map (\<lambda>e. e / S) es = softmax (map (\<lambda>r. r - mx) rs)"
    by (simp add: softmax_def S_def es' o_def)
  also have "\<dots> = softmax rs" by (rule softmax_shift)
  finally show ?thesis .
qed

section \<open>The last step of the entry point\<close>

lemma Linear_forward_nth:
  assumes "v < length (weight l)" and "length (bias l) = length (weight l)"
  shows "Linear_forward l x ! v = dot (weight l ! v) x + bias l ! v"
  using assms by (simp add: Linear_forward_def Linear_nobias_def)

lemma Transformer_forward_nth:
  assumes "n < length (Decoder_hidden (decoder tr) (decoder_weights w) trg
              (Encoder_forward (encoder tr) (encoder_weights w) src (make_src_mask tr src))
              (make_src_mask tr src) (make_trg_mask tr trg))"
    and "t < length (Decoder_hidden (decoder tr) (decoder_weights w) trg
              (Encoder_forward (encoder tr) (encoder_weights w) src (make_src_mask tr src))
              (make_src_mask tr src) (make_trg_mask tr trg) ! n)"
    and "v < length (weight (dec_fc_out_weights (decoder_weights w)))"
    and "length (bias (dec_fc_out_weights (decoder_weights w)))
           = length (weight (dec_fc_out_weights (decoder_weights w)))"
  shows "Transformer_forward tr w src trg ! n ! t ! v =
           dot (weight (dec_fc_out_weights (decoder_weights w)) ! v)
               (Decoder_hidden (decoder tr) (decoder_weights w) trg
                  (Encoder_forward (encoder tr) (encoder_weights w) src (make_src_mask tr src))
                  (make_src_mask tr src) (make_trg_mask tr trg) ! n ! t)
           + bias (dec_fc_out_weights (decoder_weights w)) ! v"
  using assms
  by (simp add: Transformer_forward_def Decoder_forward_def Let_def Linear_forward_nth)

lemma tiny_model_init: "Transformer_init 2 2 0 0 1 0 4 1 0 ''cpu'' 1 = Inr tiny_model"
  by (simp add: Transformer_init_def Encoder_init_def Decoder_init_def init_layers_def
      nn_Linear_init_def nn_Embedding_init_def nn_Dropout_init_def tiny_model_def)

lemma tiny_hidden:
  "Decoder_hidden (decoder tiny_model) (decoder_weights tiny_weights) [[1]]
     (Encoder_forward (encoder tiny_model) (encoder_weights tiny_weights) [[1]]
        (make_src_mask tiny_model [[1]]))
     (make_src_mask tiny_model [[1]]) (make_trg_mask tiny_model [[1]]) = [[[3]]]"
  by (simp add: Decoder_hidden_def Let_def tiny_model_def tiny_weights_def
      Embedding_forward_def tensor3_add_def positions_def dim1_def)

lemma tiny_logits: "Transformer_forward tiny_model tiny_weights [[1]] [[1]] = [[[- 1, 3]]]"
  by (simp add: Transformer_forward_def Decoder_forward_def Decoder_hidden_def
      Encoder_forward_def Let_def tiny_model_def tiny_weights_def Embedding_forward_def
      tensor3_add_def positions_def dim1_def Linear_forward_def Linear_nobias_def dot_def)


section \<open>Construction succeeds exactly on divisible sizes\<close>

lemma div_mult_eq_iff_mod:
  fixes e h :: int
  shows "(e div h) * h = e \<longleftrightarrow> e mod h = 0"
proof -
  have "(e div h) * h + e mod h = e"
    by (rule div_mult_mod_eq)
  then show ?thesis by linarith
qed

text \<open>
  C2. For an embed size \<open>E \<ge> 0\<close> and a head count \<open>H > 0\<close>, constructing the attention
  module succeeds (with \<open>head_dim = E div H\<close>) when \<open>E mod H = 0\<close> and fails with the
  assertion error when \<open>E mod H \<noteq> 0\<close>. The failure is the value of the constructor
  itself, so it happens at construction, before any forward call.
\<close>

theorem SelfAttention_init_divisible:
  assumes "0 \<le> E" and "0 < H"
  shows "(E mod H = 0 \<longrightarrow>
            SelfAttention_init E H = Inr \<lparr>embed_size = E, heads = H, head_dim = E div H\<rparr>)
       \<and> (E mod H \<noteq> 0 \<longrightarrow> SelfAttention_init E H = Inl AssertionError)"
proof -
  have d: "0 \<le> E div H"
    using assms by (simp add: pos_imp_zdiv_nonneg_iff)
  have m: "0 \<le> H * (E div H)"
    using assms d by simp
  show ?thesis
    using assms d m
    by (auto simp: SelfAttention_init_def nn_Linear_init_def Let_def div_mult_eq_iff_mod)
qed

theorem SelfAttention_init_divisible_witness:
  "SelfAttention_init 256 8 = Inr \<lparr>embed_size = 256, heads = 8, head_dim = 32\<rparr>
   \<and> SelfAttention_init 256 7 = Inl AssertionError"
  using SelfAttention_init_divisible [of 256 8] SelfAttention_init_divisible [of 256 7]
  by simp

section \<open>The claims about the attention weights\<close>

text \<open>
  C3. For every input to the attention module, the weight at \<open>(n, h, q, k)\<close> is the softmax
  along the key axis of the (masked) scores divided by the square root of the full embed
  size \<open>E\<close>, not of the head dimension.
\<close>

theorem attention_is_scaled_softmax:
  assumes "0 < embed_size self"
    and "n < length queries" and "h < nat (heads self)"
    and "q < dim1 queries" and "k < dim1 keys"
  shows "SelfAttention_attention self p values keys queries mask' ! n ! h ! q ! k =
           spec_attention_weight (embed_size self)
             (spec_masked_score (SelfAttention_energy self p keys queries) mask' n h q)
             (dim1 keys) k"
proof -
  let ?e = "SelfAttention_energy self p keys queries"
  have d: "n < length ?e" "h < length (?e ! n)" "q < length (?e ! n ! h)"
    "length (?e ! n ! h ! q) = dim1 keys"
    using assms by (simp_all add: energy_dims)
  show ?thesis
    using assms(5) d(4)
    by (simp add: SelfAttention_attention_def attention_row [OF d(1-3)] softmax_nth
        spec_attention_weight_def o_def)
qed

theorem attention_is_scaled_softmax_witness:
  "SelfAttention_attention \<lparr>embed_size = 4, heads = 2, head_dim = 2\<rparr>
       \<lparr>values_weight = [[1,0],[0,1]], keys_weight = [[1,0],[0,1]], queries_weight = [[1,0],[0,1]]\<rparr>
       [[[1,2,3,4],[0,1,0,1]]] [[[1,2,3,4],[0,1,0,1]]] [[[1,2,3,4],[0,1,0,1]]] None ! 0 ! 1 ! 0 ! 1 =
     spec_attention_weight 4
       (spec_masked_score
          (SelfAttention_energy \<lparr>embed_size = 4, heads = 2, head_dim = 2\<rparr>
             \<lparr>values_weight = [[1,0],[0,1]], keys_weight = [[1,0],[0,1]], queries_weight = [[1,0],[0,1]]\<rparr>
             [[[1,2,3,4],[0,1,0,1]]] [[[1,2,3,4],[0,1,0,1]]]) None 0 1 0) 2 1"
proof -
  let ?self = "\<lparr>embed_size = 4, heads = 2, head_dim = 2\<rparr>"
  let ?x = "[[[1,2,3,4],[0,1,0,1]]] :: tensor3"
  have a: "0 < embed_size ?self" "(0::nat) < length ?x" "(1::nat) < nat (heads ?self)"
    "(0::nat) < dim1 ?x" "(1::nat) < dim1 ?x"
    by (simp_all add: dim1_def)
  have b: "dim1 ?x = 2" "embed_size ?self = 4"
    by (simp_all add: dim1_def)
  show ?thesis
    using attention_is_scaled_softmax [OF a, of _ ?x None]
    unfolding b .
qed










text \<open>
  C8, as the code has it. When every key of a query position is masked, the weights of
  that row are uniform, \<open>1 / key_len\<close> each, and the call issues no warning: the log of
  issued warnings is unchanged.
\<close>

theorem fully_masked_row_is_uniform_and_silent:
  assumes "0 < embed_size self"
    and "n < length queries" and "h < nat (heads self)" and "q < dim1 queries"
    and "k < dim1 keys"
    and "\<forall>j < dim1 keys. mask_at m n h q j = 0"
  shows "fst (SelfAttention_attention_logged self p values keys queries (Some m) issued)
            ! n ! h ! q ! k = 1 / real (dim1 keys)
       \<and> snd (SelfAttention_attention_logged self p values keys queries (Some m) issued) = issued"
proof -
  let ?e = "SelfAttention_energy self p keys queries"
  let ?c = "neg_sentinel / sqrt (real_of_int (embed_size self))"
  let ?row = "map (\<lambda>k. spec_masked_score ?e (Some m) n h q k / sqrt (real_of_int (embed_size self)))
                [0..<length (?e ! n ! h ! q)]"
  have d: "n < length ?e" "h < length (?e ! n)" "q < length (?e ! n ! h)"
    "length (?e ! n ! h ! q) = dim1 keys"
    using assms by (simp_all add: energy_dims)
  have l: "length ?row = dim1 keys"
    using d(4) by simp
  have "\<forall>j < length ?row. ?row ! j = ?c"
    using assms(6) d(4) by (simp add: spec_masked_score_def)
  then have "softmax ?row ! k = 1 / real (length ?row)"
    by (rule softmax_uniform) (use assms(5) l in simp)
  then show ?thesis
    using l
    by (simp only: SelfAttention_attention_logged_def SelfAttention_attention_def
        attention_row [OF d(1-3)] fst_conv snd_conv simp_thms)
qed

theorem fully_masked_row_is_uniform_and_silent_witness:
  "fst (SelfAttention_attention_logged \<lparr>embed_size = 1, heads = 1, head_dim = 1\<rparr>
       \<lparr>values_weight = [[1]], keys_weight = [[1]], queries_weight = [[1]]\<rparr>
       [[[3], [5]]] [[[3], [5]]] [[[2]]]
       (Some (make_src_mask main_model [[0, 0]])) [])
     ! 0 ! 0 ! 0 ! 1 = 1 / 2"
proof -
  let ?self = "\<lparr>embed_size = 1, heads = 1, head_dim = 1\<rparr>"
  let ?keys = "[[[3], [5]]] :: tensor3"
  let ?queries = "[[[2]]] :: tensor3"
  let ?m = "make_src_mask main_model [[0, 0]]"
  have a: "0 < embed_size ?self" "(0::nat) < length ?queries" "(0::nat) < nat (heads ?self)"
    "(0::nat) < dim1 ?queries" "(1::nat) < dim1 ?keys"
    by (simp_all add: dim1_def)
  have k2: "dim1 ?keys = 2" by (simp add: dim1_def)
  have f: "\<forall>j < dim1 ?keys. mask_at ?m 0 0 0 j = 0"
    unfolding k2 by (simp add: make_src_mask_at less_Suc_eq numeral_2_eq_2)
  show ?thesis
    using fully_masked_row_is_uniform_and_silent [OF a f] unfolding k2 by simp
qed

text \<open>
  The claim as stated fails: on a source of two padding tokens both keys are masked and
  no DegenerateMaskWarning is issued.
\<close>

theorem degenerate_mask_warning_counterexample:
  "mask_at (make_src_mask main_model [[0, 0]]) 0 0 0 0 = 0
   \<and> mask_at (make_src_mask main_model [[0, 0]]) 0 0 0 1 = 0
   \<and> snd (SelfAttention_attention_logged \<lparr>embed_size = 1, heads = 1, head_dim = 1\<rparr>
       \<lparr>values_weight = [[1]], keys_weight = [[1]], queries_weight = [[1]]\<rparr>
       [[[3], [5]]] [[[3], [5]]] [[[2]]]
       (Some (make_src_mask main_model [[0, 0]])) [])
     = []"
  by (simp add: SelfAttention_attention_logged_def make_src_mask_def mask_at_def bnth_def)

text \<open>
  C9, as the code has it. The mask fill is idempotent: filling twice with the same mask
  gives the same scores as filling once, hence the same attention weights.
\<close>

theorem mask_fill_idempotent:
  "masked_fill (masked_fill energy m neg_sentinel) m neg_sentinel = masked_fill energy m neg_sentinel
   \<and> attention_of_energy E (masked_fill energy m neg_sentinel) (Some m)
       = attention_of_energy E energy (Some m)"
  by (simp add: attention_of_energy_def masked_fill_idem)

text \<open>
  The claim as stated (mask fill then softmax, the pair applied twice) fails: the softmax
  of the weights is not the weights.
\<close>

theorem mask_then_softmax_twice_counterexample:
  "attention_of_energy 1
      (attention_of_energy 1 [[[[0, 1, 0]]]] (Some [[[[1, 1, 0]]]])) (Some [[[[1, 1, 0]]]])
   \<noteq> attention_of_energy 1 [[[[0, 1, 0]]]] (Some [[[[1, 1, 0]]]])"
proof -
  have one: "attention_of_energy 1 [[[[0, 1, 0]]]] (Some [[[[1, 1, 0]]]])
      = [[[softmax [0, 1, neg_sentinel]]]]"
    by (simp add: attention_of_energy_def masked_fill_def imap_def mask_at_def bnth_def
        softmax_dim3_def upt_rec [of 0] upt_rec [of 1] upt_rec [of 2] upt_rec [of 3])
  have ne: "softmax [0, 1, neg_sentinel] \<noteq> []"
    by (simp add: softmax_def)
  have two: "attention_of_energy 1 [[[softmax [0, 1, neg_sentinel]]]] (Some [[[[1, 1, 0]]]])
      = [[[softmax [softmax [0, 1, neg_sentinel] ! 0, softmax [0, 1, neg_sentinel] ! 1,
             neg_sentinel]]]]"
    using ne
    by (simp add: attention_of_energy_def masked_fill_def imap_def mask_at_def bnth_def
        softmax_dim3_def upt_rec [of 0] upt_rec [of 1] upt_rec [of 2] upt_rec [of 3])
  show ?thesis
    unfolding one two using softmax_twice_differs [of neg_sentinel] by simp
qed

section \<open>The target mask\<close>

text \<open>
  C10. The target mask depends on the shape of the target batch only: two batches of the
  same shape, under any two padding indices, get the same mask. A position on or below
  the diagonal has mask 1 whatever token it holds, so its score in decoder
  self-attention is left as it is, padding or not.
\<close>

theorem make_trg_mask_depends_on_shape_only:
  assumes "length trg = length trg'" and "dim1 trg = dim1 trg'"
    and "length x = length trg" and "dim1 x = dim1 trg"
    and "n < length trg" and "h < nat (heads self)" and "k \<le> q" and "q < dim1 trg"
  shows "make_trg_mask tr trg = make_trg_mask tr' trg'
       \<and> mask_at (make_trg_mask tr trg) n h q k = 1
       \<and> masked_fill (SelfAttention_energy self p x x) (make_trg_mask tr trg) neg_sentinel
            ! n ! h ! q ! k = SelfAttention_energy self p x x ! n ! h ! q ! k"
proof -
  let ?e = "SelfAttention_energy self p x x"
  have k: "k < dim1 trg" using assms by simp
  have d: "n < length ?e" "h < length (?e ! n)" "q < length (?e ! n ! h)"
    "k < length (?e ! n ! h ! q)"
    using assms k by (simp_all add: energy_dims)
  have same: "make_trg_mask tr trg = make_trg_mask tr' trg'"
    using assms(1,2) by (simp add: make_trg_mask_def)
  have at: "mask_at (make_trg_mask tr trg) n h q k = 1"
    using assms k by (simp add: make_trg_mask_at)
  then have "masked_fill ?e (make_trg_mask tr trg) neg_sentinel ! n ! h ! q ! k = ?e ! n ! h ! q ! k"
    by (simp add: masked_fill_nth [OF d])
  with same at show ?thesis by simp
qed

theorem make_trg_mask_depends_on_shape_only_witness:
  "make_trg_mask main_model [[1, 7, 0]]
     = make_trg_mask (main_model\<lparr>trg_pad_idx := 5\<rparr>) [[0, 0, 0]]
   \<and> [[1, 7, 0]] ! 0 ! 2 = trg_pad_idx main_model
   \<and> mask_at (make_trg_mask main_model [[1, 7, 0]])
        0 0 2 2 = 1"
proof -
  let ?trg = "[[1, 7, 0]] :: int list list"
  let ?trg' = "[[0, 0, 0]] :: int list list"
  let ?x = "[[[1], [2], [3]]] :: tensor3"
  let ?self = "\<lparr>embed_size = 1, heads = 1, head_dim = 1\<rparr>"
  have a: "length ?trg = length ?trg'" "dim1 ?trg = dim1 ?trg'"
    "length ?x = length ?trg" "dim1 ?x = dim1 ?trg"
    "(0::nat) < length ?trg" "(0::nat) < nat (heads ?self)" "(2::nat) \<le> 2" "(2::nat) < dim1 ?trg"
    by (simp_all add: dim1_def)
  note t = make_trg_mask_depends_on_shape_only [OF a,
      where tr = "main_model"
        and tr' = "(main_model\<lparr>trg_pad_idx := 5\<rparr>)"]
  have pad: "?trg ! 0 ! 2 = trg_pad_idx main_model"
    by simp
  from t pad show ?thesis by blast
qed

section \<open>The claims about shapes\<close>

text \<open>
  C6. For a model built by the constructor with positive embed size and head count, a
  source and a target batch of the same batch size, tokens inside the vocabularies and
  lengths within the maximal length, the forward pass returns the shape
  \<^verbatim>\<open>[N, target_len, vocab_size]\<close>. What the entry point returns is the output of the
  linear layer \<^verbatim>\<open>fc_out\<close> on the output of the last decoder layer: each logit is
  \<open>W\<^sub>v \<cdot> x + b\<^sub>v\<close>, with no activation or softmax after it; the model without layers
  returns the logits \<open>-1\<close> and \<open>3\<close>, which no softmax and no ReLU returns. The model of
  \<^verbatim>\<open>__main__\<close> on the 2 by 9 source batch and the 2 by 7 target batch returns
  \<^verbatim>\<open>[2, 7, 10]\<close>.
\<close>

theorem forward_returns_logits:
  assumes "Transformer_init sv tv sp tp E L fe H dr dev ml = Inr tr"
    and "0 < E" and "0 < H"
    and "length src = length trg"
    and "list_all (list_all (\<lambda>t. 0 \<le> t \<and> t < sv)) src" and "int (dim1 src) \<le> ml"
    and "list_all (list_all (\<lambda>t. 0 \<le> t \<and> t < tv)) trg" and "int (dim1 trg) \<le> ml"
    and "n < length (Decoder_hidden (decoder tr) (decoder_weights w) trg
              (Encoder_forward (encoder tr) (encoder_weights w) src (make_src_mask tr src))
              (make_src_mask tr src) (make_trg_mask tr trg))"
    and "t < length (Decoder_hidden (decoder tr) (decoder_weights w) trg
              (Encoder_forward (encoder tr) (encoder_weights w) src (make_src_mask tr src))
              (make_src_mask tr src) (make_trg_mask tr trg) ! n)"
    and "v < length (weight (dec_fc_out_weights (decoder_weights w)))"
    and "length (bias (dec_fc_out_weights (decoder_weights w)))
           = length (weight (dec_fc_out_weights (decoder_weights w)))"
  shows "Transformer_forward_shape tr src trg = Inr [length trg, dim1 trg, nat tv]
       \<and> Transformer_forward tr w src trg ! n ! t ! v =
           dot (weight (dec_fc_out_weights (decoder_weights w)) ! v)
               (Decoder_hidden (decoder tr) (decoder_weights w) trg
                  (Encoder_forward (encoder tr) (encoder_weights w) src (make_src_mask tr src))
                  (make_src_mask tr src) (make_trg_mask tr trg) ! n ! t)
           + bias (dec_fc_out_weights (decoder_weights w)) ! v
       \<and> Transformer_init 10 10 0 0 256 6 4 8 0 ''mps'' 100 = Inr main_model
       \<and> Transformer_forward_shape main_model
            [[1, 5, 6, 4, 3, 9, 5, 2, 0], [1, 8, 7, 3, 4, 5, 6, 7, 2]]
            [[1, 7, 4, 3, 5, 9, 2], [1, 5, 6, 2, 4, 7, 6]] = Inr [2, 7, 10]
       \<and> Transformer_init 2 2 0 0 1 0 4 1 0 ''cpu'' 1 = Inr tiny_model
       \<and> Transformer_forward tiny_model tiny_weights [[1]] [[1]] = [[[- 1, 3]]]"
proof -
  let ?src = "[[1, 5, 6, 4, 3, 9, 5, 2, 0], [1, 8, 7, 3, 4, 5, 6, 7, 2]] :: int list list"
  let ?trg = "[[1, 7, 4, 3, 5, 9, 2], [1, 5, 6, 2, 4, 7, 6]] :: int list list"
  have "Transformer_forward_shape main_model ?src ?trg = Inr [length ?trg, dim1 ?trg, nat 10]"
    by (rule Transformer_forward_shape_ok [OF main_model_init]) (simp_all add: dim1_def)
  then have scenario: "Transformer_forward_shape main_model ?src ?trg = Inr [2, 7, 10]"
    by (simp add: dim1_def)
  show ?thesis
    using Transformer_forward_shape_ok [OF assms(1-8)] Transformer_forward_nth [OF assms(9-12)]
      main_model_init scenario tiny_model_init tiny_logits
    by blast
qed

theorem forward_returns_logits_witness:
  "Transformer_forward_shape tiny_model [[1]] [[1]] = Inr [1, 1, 2]
   \<and> Transformer_forward tiny_model tiny_weights [[1]] [[1]] ! 0 ! 0 ! 0 = dot [- 1] [3] + 2"
proof -
  let ?tok = "[[1]] :: int list list"
  have a: "(0::int) < 1" "(0::int) < 1" "length ?tok = length ?tok"
    "list_all (list_all (\<lambda>t. 0 \<le> t \<and> t < 2)) ?tok" "int (dim1 ?tok) \<le> 1"
    "list_all (list_all (\<lambda>t. 0 \<le> t \<and> t < 2)) ?tok" "int (dim1 ?tok) \<le> 1"
    by (simp_all add: dim1_def)
  have b: "(0::nat) < length (Decoder_hidden (decoder tiny_model) (decoder_weights tiny_weights)
        ?tok (Encoder_forward (encoder tiny_model) (encoder_weights tiny_weights) ?tok
          (make_src_mask tiny_model ?tok))
        (make_src_mask tiny_model ?tok) (make_trg_mask tiny_model ?tok))"
    "(0::nat) < length (Decoder_hidden (decoder tiny_model) (decoder_weights tiny_weights)
        ?tok (Encoder_forward (encoder tiny_model) (encoder_weights tiny_weights) ?tok
          (make_src_mask tiny_model ?tok))
        (make_src_mask tiny_model ?tok) (make_trg_mask tiny_model ?tok) ! 0)"
    "(0::nat) < length (weight (dec_fc_out_weights (decoder_weights tiny_weights)))"
    "length (bias (dec_fc_out_weights (decoder_weights tiny_weights)))
       = length (weight (dec_fc_out_weights (decoder_weights tiny_weights)))"
    unfolding tiny_hidden by (simp_all add: tiny_weights_def)
  have c: "weight (dec_fc_out_weights (decoder_weights tiny_weights)) ! 0 = [- 1]"
    "bias (dec_fc_out_weights (decoder_weights tiny_weights)) ! 0 = 2"
    by (simp_all add: tiny_weights_def)
  note t = forward_returns_logits [OF tiny_model_init a b]
  from t have "Transformer_forward_shape tiny_model ?tok ?tok
      = Inr [length ?tok, dim1 ?tok, nat 2]"
    by (rule conjunct1)
  then have s: "Transformer_forward_shape tiny_model ?tok ?tok = Inr [1, 1, 2]"
    by (simp add: dim1_def)
  from t have "Transformer_forward tiny_model tiny_weights ?tok ?tok ! 0 ! 0 ! 0 =
      dot (weight (dec_fc_out_weights (decoder_weights tiny_weights)) ! 0)
        (Decoder_hidden (decoder tiny_model) (decoder_weights tiny_weights) ?tok
           (Encoder_forward (encoder tiny_model) (encoder_weights tiny_weights) ?tok
              (make_src_mask tiny_model ?tok))
           (make_src_mask tiny_model ?tok) (make_trg_mask tiny_model ?tok) ! 0 ! 0)
      + bias (dec_fc_out_weights (decoder_weights tiny_weights)) ! 0"
    by (rule conjunct1 [OF conjunct2])
  then have v: "Transformer_forward tiny_model tiny_weights ?tok ?tok ! 0 ! 0 ! 0
      = dot [- 1] [3] + 2"
    unfolding tiny_hidden c by simp
  from s v show ?thesis by (rule conjI)
qed

text \<open>
  C7, as the code has it. The module has no check of its own; the tensor library raises
  its RuntimeError (the specification's ShapeError) at call time when values or keys of
  embed size \<open>E\<close> and non-zero length have a batch other than that of queries (the reshape
  fails), and when, the batches agreeing, \<^verbatim>\<open>key_len\<close> and \<^verbatim>\<open>value_len\<close> differ and neither
  is 1 (the second einsum fails). Equal lengths go through.
\<close>

theorem shape_mismatch_raises:
  assumes "SelfAttention_init E H = Inr self" and "0 < E" and "0 < H"
  shows "((Nv \<noteq> N \<and> 0 < Lv) \<or> (Nk \<noteq> N \<and> 0 < Lk) \<longrightarrow>
            SelfAttention_forward_shape self [Nv, Lv, nat E] [Nk, Lk, nat E] [N, Lq, nat E] m
              = Inl RuntimeError)
       \<and> (Lk \<noteq> Lv \<and> Lk \<noteq> 1 \<and> Lv \<noteq> 1 \<longrightarrow>
            SelfAttention_forward_shape self [N, Lv, nat E] [N, Lk, nat E] [N, Lq, nat E] None
              = Inl RuntimeError)
       \<and> SelfAttention_forward_shape self [N, Lk, nat E] [N, Lk, nat E] [N, Lq, nat E] None
            = Inr [N, Lq, nat E]"
proof -
  define H' D' where "H' = nat H" and "D' = nat (E div H)"
  have ok: "attention_ok E self"
    using assms(1,3) by (rule SelfAttention_init_ok)
  have sa: "heads self = H" "head_dim self = E div H" "embed_size self = E"
    using assms(1) by (auto simp: SelfAttention_init_def Let_def split: if_splits sum.splits)
  have "(E div H) * H = E" and "0 \<le> E div H"
    using ok sa by (simp_all add: attention_ok_def)
  then have dpos: "0 < E div H"
    using assms(2) by (cases "E div H = 0") simp_all
  have h: "heads self = int H'" and d: "head_dim self = int D'"
    using assms(3) dpos sa by (simp_all add: H'_def D'_def)
  have pos: "0 < H'" "0 < D'"
    using assms(3) dpos by (simp_all add: H'_def D'_def)
  have "E = (E div H) * H"
    using ok sa by (simp add: attention_ok_def)
  then have E: "E = int (H' * D')"
    using h d sa by (simp add: mult.commute)
  have nE: "nat E = H' * D'"
    unfolding E by (rule nat_int)
  have n: "nat (int H' * int D') = H' * D'"
    by (simp add: nat_mult_distrib)
  have e: "embed_size self = int (H' * D')"
    using sa E by simp
  have batch: "SelfAttention_forward_shape self [Nv, Lv, H' * D'] [Nk, Lk, H' * D']
      [N, Lq, H' * D'] m = Inl RuntimeError"
    if "(Nv \<noteq> N \<and> 0 < Lv) \<or> (Nk \<noteq> N \<and> 0 < Lk)"
    unfolding SelfAttention_forward_shape_def Let_def h d e
    using that pos
    by (auto simp: n shape_index_def reshape_shape_def Linear_shape_def)
  have len: "SelfAttention_forward_shape self [N, Lv, H' * D'] [N, Lk, H' * D']
      [N, Lq, H' * D'] None = Inl RuntimeError"
    if "Lk \<noteq> Lv \<and> Lk \<noteq> 1 \<and> Lv \<noteq> 1"
    unfolding SelfAttention_forward_shape_def Let_def h d e
    using that
    by (simp add: n shape_index_def reshape_shape_def Linear_shape_def
        einsum_nqhd_nkhd_shape_def einsum_nhql_nlhd_shape_def softmax_shape_def
        broadcast_dim_def)
  have good: "SelfAttention_forward_shape self [N, Lk, H' * D'] [N, Lk, H' * D']
      [N, Lq, H' * D'] None = Inr [N, Lq, H' * D']"
    by (rule SelfAttention_forward_shape_nat [OF h d e]) simp
  show ?thesis
    unfolding nE using batch len good by blast
qed

theorem shape_mismatch_raises_witness:
  "SelfAttention_forward_shape \<lparr>embed_size = 8, heads = 2, head_dim = 4\<rparr>
       [2, 3, 8] [1, 3, 8] [1, 3, 8] None = Inl RuntimeError
   \<and> SelfAttention_forward_shape \<lparr>embed_size = 8, heads = 2, head_dim = 4\<rparr>
       [1, 4, 8] [1, 5, 8] [1, 3, 8] None = Inl RuntimeError"
proof -
  have i: "SelfAttention_init 8 2 = Inr \<lparr>embed_size = 8, heads = 2, head_dim = 4\<rparr>"
    by (simp add: SelfAttention_init_def nn_Linear_init_def)
  have a: "(0::int) < 8" "(0::int) < 2" by simp_all
  have n: "nat 8 = 8" by simp
  note t = shape_mismatch_raises [OF i a]
  from t [of 2 1 3 1 3 3 None] t [of 1 1 4 1 5 3 None] show ?thesis
    unfolding n by simp
qed

text \<open>
  The claim as stated fails: a values tensor of batch 2 against queries of batch 1 is
  reshaped without complaint when its number of entries happens to fit, and a
  \<^verbatim>\<open>value_len\<close> of 1 is broadcast against a \<^verbatim>\<open>key_len\<close> of 5.
\<close>

theorem shape_mismatch_counterexample:
  "SelfAttention_init 8 2 = Inr \<lparr>embed_size = 8, heads = 2, head_dim = 4\<rparr>
   \<and> SelfAttention_forward_shape \<lparr>embed_size = 8, heads = 2, head_dim = 4\<rparr>
       [2, 3, 4] [1, 3, 8] [1, 3, 8] None = Inr [1, 3, 8]
   \<and> SelfAttention_forward_shape \<lparr>embed_size = 8, heads = 2, head_dim = 4\<rparr>
       [1, 1, 8] [1, 5, 8] [1, 3, 8] None = Inr [1, 3, 8]"
  by (simp add: SelfAttention_init_def nn_Linear_init_def
      SelfAttention_forward_shape_def Let_def shape_index_def reshape_shape_def Linear_shape_def
      einsum_nqhd_nkhd_shape_def einsum_nhql_nlhd_shape_def softmax_shape_def broadcast_dim_def)

end
